theory Spec2Isabelle
  imports Main "HOL-Library.AList"
begin

section \<open>naghelp.collect: result validation and the Expect step engine\<close>

text \<open>
  A shallow embedding of the parts of \<^verbatim>\<open>naghelp/collect.py\<close> that validate a command's
  output (\<^verbatim>\<open>_raise_unexpected_result\<close>, \<^verbatim>\<open>_filter_result\<close>), rewrite patterns
  (\<^verbatim>\<open>Expect._expect_pattern_rewrite\<close>, \<^verbatim>\<open>Telnet._normalize_pattern\<close>), walk login and logout
  steps (\<^verbatim>\<open>Expect._expect_steps\<close>) and run commands on an \<^verbatim>\<open>Expect\<close> session
  (\<^verbatim>\<open>_run_cmd\<close>, \<^verbatim>\<open>run\<close>, \<^verbatim>\<open>mrun\<close>, \<^verbatim>\<open>close\<close>).

  Conventions.
  \<^item> A Python \<^verbatim>\<open>str\<close> is a \<^typ>\<open>string\<close> whose characters are the code points below 256; a
    \<^verbatim>\<open>bytes\<close> object is a \<^typ>\<open>string\<close> of bytes.
  \<^item> An exception is a value of \<open>error\<close>; a function that may raise returns
    \<open>error + 'a\<close> with \<open>Inl\<close> for the exception.
  \<^item> The libraries the module calls (\<^verbatim>\<open>re\<close>, \<^verbatim>\<open>textops\<close>, \<^verbatim>\<open>str.format\<close>, \<^verbatim>\<open>bytes.decode\<close>)
    are not part of the repository: their operations are the fields of the record
    \<open>externals\<close>, which every function that uses them takes as its first argument.
\<close>

subsection \<open>Characters and small string helpers\<close>

definition LF :: char where "LF = CHR 0x0A"
definition CR :: char where "CR = CHR 0x0D"

text \<open>The pattern source \<^verbatim>\<open>r'\S'\<close>: a backslash followed by \<^verbatim>\<open>S\<close>.\<close>

definition non_space :: string where
  "non_space = [CHR 0x5C, CHR ''S'']"

text \<open>The value \<^verbatim>\<open>'<timeout>'\<close> that stands for the output of a command that timed out.\<close>

definition timeout_str :: string where
  "timeout_str = ''<timeout>''"

text \<open>\<^verbatim>\<open>sep.join(xs)\<close>\<close>

fun join :: "string \<Rightarrow> string list \<Rightarrow> string" where
  "join sep [] = []"
| "join sep [x] = x"
| "join sep (x # y # ys) = x @ sep @ join sep (y # ys)"

text \<open>
  \<^verbatim>\<open>str.splitlines()\<close> on code points below 256: a line ends at \<^verbatim>\<open>\n\<close>, \<^verbatim>\<open>\r\<close>,
  \<^verbatim>\<open>\r\n\<close>, \<^verbatim>\<open>\v\<close>, \<^verbatim>\<open>\f\<close>, \<^verbatim>\<open>\x1c\<close>, \<^verbatim>\<open>\x1d\<close>, \<^verbatim>\<open>\x1e\<close> or \<^verbatim>\<open>\x85\<close>; the line
  breaks are dropped and a final line break opens no further line.
\<close>

fun splitlines_acc :: "string \<Rightarrow> string \<Rightarrow> string list" where
  "splitlines_acc cur [] = (if cur = [] then [] else [rev cur])"
| "splitlines_acc cur (c # cs) =
     (if c = CR \<and> cs \<noteq> [] \<and> hd cs = LF then rev cur # splitlines_acc [] (tl cs)
      else if of_char c \<in> {10, 11, 12, 13, 28, 29, 30, 133 :: nat}
      then rev cur # splitlines_acc [] cs
      else splitlines_acc (c # cur) cs)"

definition splitlines :: "string \<Rightarrow> string list" where
  "splitlines s = splitlines_acc [] s"

text \<open>\<^verbatim>\<open>'%s' % cmd\<close> and \<^verbatim>\<open>'{}'.format(cmd)\<close> for a command that is a \<^verbatim>\<open>str\<close> or \<^verbatim>\<open>None\<close>.\<close>

definition py_str :: "string option \<Rightarrow> string" where
  "py_str cmd = (case cmd of None \<Rightarrow> ''None'' | Some s \<Rightarrow> s)"

subsection \<open>Exceptions\<close>

text \<open>
  The two messages of \<^verbatim>\<open>CollectError\<close> that the step engine builds are kept structured:
  \<open>NoMoreData spawn\<close> is \<^verbatim>\<open>'No more data (EOF) from {}'.format(self.spawn)\<close> and
  \<open>TooManyExpect patterns\<close> is \<^verbatim>\<open>'Too many expect for {}'.format(patterns)\<close>.
  \<open>ReError\<close> is \<^verbatim>\<open>re.error\<close>, raised by \<^verbatim>\<open>re.compile\<close> for a source that is no regular
  expression; \<open>PexpectTIMEOUT\<close> is \<^verbatim>\<open>pexpect.TIMEOUT\<close>; \<open>FormatError\<close> stands for what
  \<^verbatim>\<open>str.format\<close> raises; \<open>Raised\<close> is an exception of a caller-supplied \<^verbatim>\<open>filter\<close>.
\<close>

datatype expect_pat = EOF_pat | Pat string

datatype collect_msg = NoMoreData string | TooManyExpect "expect_pat list"

datatype error =
    CollectError collect_msg
  | NotConnected string
  | UnexpectedResultError string
  | TimeoutError
  | TypeError
  | IndexError
  | AttributeError
  | FormatError
  | UnicodeDecodeError
  | ReError
  | PexpectTIMEOUT
  | Raised string

subsection \<open>Patterns and the external text operations\<close>

text \<open>
  A compiled regular expression object: its \<^verbatim>\<open>.pattern\<close> source and its flags.
  \<open>re_compile s\<close> is the object that \<^verbatim>\<open>re.compile(s)\<close> returns for a \<^verbatim>\<open>str\<close> that compiles; it
  carries the flag \<^verbatim>\<open>re.UNICODE\<close> (32). Whether the source compiles is asked of the
  library, see \<open>compiled\<close> below.
\<close>

datatype regex = Regex (pattern: string) (flags: nat)

definition re_compile :: "string \<Rightarrow> regex" where
  "re_compile s = Regex s 32"

text \<open>An \<^verbatim>\<open>expected_pattern\<close> or \<^verbatim>\<open>unexpected_pattern\<close> argument that is not \<^verbatim>\<open>None\<close>.\<close>

datatype pattern_arg = PStr string | PRegex regex

text \<open>
  \<^verbatim>\<open>if unexpected_pattern:\<close> --- \<^verbatim>\<open>None\<close> and the empty \<^verbatim>\<open>str\<close> are false, a compiled
  regular expression is true.
\<close>

fun pattern_truthy :: "pattern_arg option \<Rightarrow> bool" where
  "pattern_truthy None = False"
| "pattern_truthy (Some (PStr s)) = (s \<noteq> [])"
| "pattern_truthy (Some (PRegex r)) = True"

text \<open>
  A result that \<^verbatim>\<open>_filter_result\<close> may be given or that a \<^verbatim>\<open>filter\<close> may return: a \<^verbatim>\<open>str\<close>,
  a \<^verbatim>\<open>textops.ListExt\<close> (its lines), or an object of another type, of which
  \<open>ROther text type_text truth\<close> keeps \<^verbatim>\<open>str(result)\<close>, \<^verbatim>\<open>str(type(result))\<close> and
  \<^verbatim>\<open>bool(result)\<close>.
\<close>

datatype pyobj = RStr string | RList "string list" | ROther string string bool

text \<open>\<^verbatim>\<open>bool(result)\<close>: an empty \<^verbatim>\<open>str\<close> and an empty list are false.\<close>

fun truthy :: "pyobj \<Rightarrow> bool" where
  "truthy (RStr s) = (s \<noteq> [])"
| "truthy (RList l) = (l \<noteq> [])"
| "truthy (ROther text type_text truth) = truth"

text \<open>
  The operations of the libraries:
  \<^item> \<open>compiles source\<close> tells whether \<^verbatim>\<open>re.compile(source)\<close> returns (it raises
    \<^verbatim>\<open>re.error\<close> otherwise);
  \<^item> \<open>haspattern rx text\<close> is \<^verbatim>\<open>text | textops.haspattern(rx)\<close> for a \<^verbatim>\<open>str\<close>;
  \<^item> \<open>findhighlight rx text\<close> is
    \<^verbatim>\<open>(text | textops.findhighlight(rx, line_nbr=True, nlines=5)).tostr()\<close> for a \<^verbatim>\<open>str\<close>;
  \<^item> \<open>haspattern_obj\<close> and \<open>findhighlight_obj\<close> are the same two expressions for a
    result that is no \<^verbatim>\<open>str\<close>, where they may raise;
  \<^item> \<open>rm_cmd_sub cmd out\<close> is \<^verbatim>\<open>re.compile(r'^.*?%s\n*' % cmd, re.DOTALL).sub('', out)\<close>,
    where the expression compiles;
  \<^item> \<open>decode_utf8 b\<close> is \<^verbatim>\<open>b.decode('utf8')\<close>, \<open>None\<close> when it raises;
  \<^item> \<open>format_ctx s\<close> is \<^verbatim>\<open>s.format(**self.context)\<close>, \<open>None\<close> when it raises.
\<close>

record externals =
  compiles :: "string \<Rightarrow> bool"
  haspattern :: "regex \<Rightarrow> string \<Rightarrow> bool"
  findhighlight :: "regex \<Rightarrow> string \<Rightarrow> string"
  haspattern_obj :: "regex \<Rightarrow> pyobj \<Rightarrow> error + bool"
  findhighlight_obj :: "regex \<Rightarrow> pyobj \<Rightarrow> error + string"
  rm_cmd_sub :: "string \<Rightarrow> string \<Rightarrow> string"
  decode_utf8 :: "string \<Rightarrow> string option"
  format_ctx :: "string \<Rightarrow> string option"

text \<open>
  \<^verbatim>\<open>if isinstance(p, str): p = re.compile(p)\<close>: the compiled pattern, or \<^verbatim>\<open>re.error\<close> for a
  \<^verbatim>\<open>str\<close> that does not compile.
\<close>

fun compiled :: "externals \<Rightarrow> pattern_arg \<Rightarrow> error + regex" where
  "compiled tx (PStr s) = (if compiles tx s then Inr (re_compile s) else Inl ReError)"
| "compiled tx (PRegex r) = Inr r"

subsection \<open>Result validation\<close>

text \<open>
  \<^verbatim>\<open>_raise_unexpected_result(result, key, cmd, help_str)\<close> for a \<^verbatim>\<open>str\<close> result: the
  exception it raises.
\<close>

definition raise_unexpected_result :: "string \<Rightarrow> string \<Rightarrow> string option \<Rightarrow> string \<Rightarrow> error" where
  "raise_unexpected_result result key cmd help_str =
     (let result' = (if result = [] then ''<empty result>''
                     else join [LF] (take 80 (splitlines result)) @ [LF] @ ''...'');
          key_str = (if key \<noteq> [] then ''for command key \"'' @ key @ ''\"'' else [])
      in UnexpectedResultError
           (''Unexpected result '' @ key_str @ [LF] @
            ''Command = '' @ py_str cmd @ [LF] @ help_str @ [LF, LF] @ result' @ [LF, LF] @
            ''NOTE : Due to nagios restrictions, pipe symbol has been replaced by \"!\"''))"

text \<open>
  A caller-supplied \<^verbatim>\<open>filter\<close>: called with \<^verbatim>\<open>result, key, cmd\<close>, it returns a replacement
  (\<open>Some\<close>), returns \<^verbatim>\<open>None\<close> (the result is kept), or raises. The results handled here
  are \<^verbatim>\<open>str\<close> values.
\<close>

type_synonym filter_func = "string \<Rightarrow> string \<Rightarrow> string option \<Rightarrow> error + string option"

definition apply_filter ::
  "filter_func option \<Rightarrow> string \<Rightarrow> string \<Rightarrow> string option \<Rightarrow> error + string" where
  "apply_filter filter_func result key cmd =
     (case filter_func of
        None \<Rightarrow> Inr result
      | Some f \<Rightarrow>
          (case f result key cmd of
             Inl e \<Rightarrow> Inl e
           | Inr None \<Rightarrow> Inr result
           | Inr (Some filtered) \<Rightarrow> Inr filtered))"

text \<open>
  The \<^verbatim>\<open>if unexpected_pattern:\<close> block: the exception it raises, if any. A \<^verbatim>\<open>str\<close>
  pattern is compiled before the result is looked at.
\<close>

definition unexpected_check ::
  "externals \<Rightarrow> string \<Rightarrow> string \<Rightarrow> string option \<Rightarrow> pattern_arg option \<Rightarrow> error option" where
  "unexpected_check tx result key cmd unexpected_pattern =
     (case unexpected_pattern of
        None \<Rightarrow> None
      | Some p \<Rightarrow>
          if pattern_truthy (Some p) then
            (case compiled tx p of
               Inl e \<Rightarrow> Some e
             | Inr rx \<Rightarrow>
                 if result \<noteq> [] \<and> haspattern tx rx result
                 then Some (raise_unexpected_result result key cmd
                              (''-> found the pattern \"'' @ pattern rx @ ''\" :'' @ [LF, LF] @
                               findhighlight tx rx result))
                 else None)
          else None)"

text \<open>The \<^verbatim>\<open>if expected_pattern:\<close> block: the exception it raises, if any.\<close>

definition expected_check ::
  "externals \<Rightarrow> string \<Rightarrow> string \<Rightarrow> string option \<Rightarrow> pattern_arg option \<Rightarrow> error option" where
  "expected_check tx result key cmd expected_pattern =
     (case expected_pattern of
        None \<Rightarrow> None
      | Some p \<Rightarrow>
          if pattern_truthy (Some p) then
            (case compiled tx p of
               Inl e \<Rightarrow> Some e
             | Inr rx \<Rightarrow>
                 if \<not> haspattern tx rx result
                 then Some (raise_unexpected_result result key cmd
                              (if pattern rx = non_space then ''-> empty result''
                               else ''-> cannot find the pattern \"'' @ pattern rx @ ''\"''))
                 else None)
          else None)"

text \<open>
  \<^verbatim>\<open>_filter_result(result, key, cmd, expected_pattern, unexpected_pattern, filter_func)\<close>.
  The value returned, \<^verbatim>\<open>textops.extend_type(result)\<close>, is the same text as \<^verbatim>\<open>result\<close>.
\<close>

definition filter_result ::
  "externals \<Rightarrow> string \<Rightarrow> string \<Rightarrow> string option \<Rightarrow> pattern_arg option \<Rightarrow>
   pattern_arg option \<Rightarrow> filter_func option \<Rightarrow> error + string" where
  "filter_result tx result key cmd expected_pattern unexpected_pattern filter_func =
     (case apply_filter filter_func result key cmd of
        Inl e \<Rightarrow> Inl e
      | Inr result1 \<Rightarrow>
          (case unexpected_check tx result1 key cmd unexpected_pattern of
             Some e \<Rightarrow> Inl e
           | None \<Rightarrow>
               (case expected_check tx result1 key cmd expected_pattern of
                  Some e \<Rightarrow> Inl e
                | None \<Rightarrow> Inr result1)))"

subsection \<open>Result validation for any result\<close>

text \<open>
  The definitions above are \<^verbatim>\<open>_filter_result\<close> for a \<^verbatim>\<open>str\<close> result and a \<^verbatim>\<open>filter\<close> that
  returns a \<^verbatim>\<open>str\<close> or \<^verbatim>\<open>None\<close>, which is what \<^verbatim>\<open>run\<close> and \<^verbatim>\<open>mrun\<close> pass. The
  definitions of this subsection are the same function for any result; on a \<^verbatim>\<open>str\<close> the
  two agree (lemma \<open>filter_result_obj_str\<close> below).

  \<^verbatim>\<open>_raise_unexpected_result\<close>: a \<^verbatim>\<open>ListExt\<close> is first turned into a \<^verbatim>\<open>str\<close> by \<^verbatim>\<open>tostr()\<close>,
  which joins its lines with line feeds; an object that is neither is shown as
  \<^verbatim>\<open>'%s (%s)' % (result, type(result))\<close>.
\<close>

definition unexpected_message :: "string \<Rightarrow> string \<Rightarrow> string option \<Rightarrow> string \<Rightarrow> error" where
  "unexpected_message shown key cmd help_str =
     UnexpectedResultError
       (''Unexpected result '' @
        (if key \<noteq> [] then ''for command key \"'' @ key @ ''\"'' else []) @ [LF] @
        ''Command = '' @ py_str cmd @ [LF] @ help_str @ [LF, LF] @ shown @ [LF, LF] @
        ''NOTE : Due to nagios restrictions, pipe symbol has been replaced by \"!\"'')"

fun raise_unexpected_result_obj :: "pyobj \<Rightarrow> string \<Rightarrow> string option \<Rightarrow> string \<Rightarrow> error" where
  "raise_unexpected_result_obj (RStr s) key cmd help_str =
     raise_unexpected_result s key cmd help_str"
| "raise_unexpected_result_obj (RList l) key cmd help_str =
     raise_unexpected_result (join [LF] l) key cmd help_str"
| "raise_unexpected_result_obj (ROther text type_text truth) key cmd help_str =
     unexpected_message (text @ '' ('' @ type_text @ '')'') key cmd help_str"

text \<open>\<^verbatim>\<open>result | textops.haspattern(rx)\<close> and the excerpt of \<^verbatim>\<open>findhighlight\<close>, for any result.\<close>

fun has_pattern :: "externals \<Rightarrow> regex \<Rightarrow> pyobj \<Rightarrow> error + bool" where
  "has_pattern tx rx (RStr s) = Inr (haspattern tx rx s)"
| "has_pattern tx rx (RList l) = haspattern_obj tx rx (RList l)"
| "has_pattern tx rx (ROther text type_text truth) =
     haspattern_obj tx rx (ROther text type_text truth)"

fun find_highlight :: "externals \<Rightarrow> regex \<Rightarrow> pyobj \<Rightarrow> error + string" where
  "find_highlight tx rx (RStr s) = Inr (findhighlight tx rx s)"
| "find_highlight tx rx (RList l) = findhighlight_obj tx rx (RList l)"
| "find_highlight tx rx (ROther text type_text truth) =
     findhighlight_obj tx rx (ROther text type_text truth)"

type_synonym filter_func_obj = "pyobj \<Rightarrow> string \<Rightarrow> string option \<Rightarrow> error + pyobj option"

definition apply_filter_obj ::
  "filter_func_obj option \<Rightarrow> pyobj \<Rightarrow> string \<Rightarrow> string option \<Rightarrow> error + pyobj" where
  "apply_filter_obj filter_func result key cmd =
     (case filter_func of
        None \<Rightarrow> Inr result
      | Some f \<Rightarrow>
          (case f result key cmd of
             Inl e \<Rightarrow> Inl e
           | Inr None \<Rightarrow> Inr result
           | Inr (Some filtered) \<Rightarrow> Inr filtered))"

text \<open>
  What the first two lines of either pattern block raise: nothing for a pattern that is
  \<^verbatim>\<open>None\<close>, empty or compiled already, \<^verbatim>\<open>re.error\<close> for a \<^verbatim>\<open>str\<close> that does not compile.
\<close>

definition compile_error :: "externals \<Rightarrow> pattern_arg option \<Rightarrow> error option" where
  "compile_error tx pat =
     (case pat of
        None \<Rightarrow> None
      | Some p \<Rightarrow>
          if pattern_truthy (Some p) then
            (case compiled tx p of Inl e \<Rightarrow> Some e | Inr rx \<Rightarrow> None)
          else None)"

definition unexpected_check_obj ::
  "externals \<Rightarrow> pyobj \<Rightarrow> string \<Rightarrow> string option \<Rightarrow> pattern_arg option \<Rightarrow> error option" where
  "unexpected_check_obj tx result key cmd unexpected_pattern =
     (case unexpected_pattern of
        None \<Rightarrow> None
      | Some p \<Rightarrow>
          if pattern_truthy (Some p) then
            (case compiled tx p of
               Inl e \<Rightarrow> Some e
             | Inr rx \<Rightarrow>
                 if truthy result then
                   (case has_pattern tx rx result of
                      Inl e \<Rightarrow> Some e
                    | Inr found \<Rightarrow>
                        if found then
                          (case find_highlight tx rx result of
                             Inl e \<Rightarrow> Some e
                           | Inr excerpt \<Rightarrow>
                               Some (raise_unexpected_result_obj result key cmd
                                       (''-> found the pattern \"'' @ pattern rx @ ''\" :'' @
                                        [LF, LF] @ excerpt)))
                        else None)
                 else None)
          else None)"

definition expected_check_obj ::
  "externals \<Rightarrow> pyobj \<Rightarrow> string \<Rightarrow> string option \<Rightarrow> pattern_arg option \<Rightarrow> error option" where
  "expected_check_obj tx result key cmd expected_pattern =
     (case expected_pattern of
        None \<Rightarrow> None
      | Some p \<Rightarrow>
          if pattern_truthy (Some p) then
            (case compiled tx p of
               Inl e \<Rightarrow> Some e
             | Inr rx \<Rightarrow>
                 (case has_pattern tx rx result of
                    Inl e \<Rightarrow> Some e
                  | Inr found \<Rightarrow>
                      if \<not> found
                      then Some (raise_unexpected_result_obj result key cmd
                                   (if pattern rx = non_space then ''-> empty result''
                                    else ''-> cannot find the pattern \"'' @ pattern rx @ ''\"''))
                      else None))
          else None)"

definition filter_result_obj ::
  "externals \<Rightarrow> pyobj \<Rightarrow> string \<Rightarrow> string option \<Rightarrow> pattern_arg option \<Rightarrow>
   pattern_arg option \<Rightarrow> filter_func_obj option \<Rightarrow> error + pyobj" where
  "filter_result_obj tx result key cmd expected_pattern unexpected_pattern filter_func =
     (case apply_filter_obj filter_func result key cmd of
        Inl e \<Rightarrow> Inl e
      | Inr result1 \<Rightarrow>
          (case unexpected_check_obj tx result1 key cmd unexpected_pattern of
             Some e \<Rightarrow> Inl e
           | None \<Rightarrow>
               (case expected_check_obj tx result1 key cmd expected_pattern of
                  Some e \<Rightarrow> Inl e
                | None \<Rightarrow> Inr result1)))"

text \<open>The default \<^verbatim>\<open>expected_pattern=r'\S'\<close> of \<^verbatim>\<open>_filter_result\<close> and of the classes.\<close>

definition default_expected :: "pattern_arg option" where
  "default_expected = Some (PStr non_space)"

text \<open>The default \<^verbatim>\<open>unexpected_pattern=r'<timeout>'\<close> of the classes.\<close>

definition default_unexpected :: "pattern_arg option" where
  "default_unexpected = Some (PStr timeout_str)"

subsection \<open>A stand-in for the libraries\<close>

text \<open>
  To evaluate the functions on examples, \<open>demo_externals\<close> behaves as the libraries do on
  the inputs used below: a source compiles when its parentheses are balanced, \<^verbatim>\<open>\S\<close> is
  found where a character is not white space, any other pattern source is read as
  literal text (right for a source without regular-expression operators, on text of one
  line), the echoed command is removed up to its first literal occurrence, and decoding
  and formatting leave ASCII text without braces as it is.
\<close>

definition is_space :: "char \<Rightarrow> bool" where
  "is_space c = (of_char c \<in> {9, 10, 11, 12, 13, 28, 29, 30, 31, 32, 133, 160 :: nat})"

fun has_sub :: "string \<Rightarrow> string \<Rightarrow> bool" where
  "has_sub p [] = (p = [])"
| "has_sub p (c # cs) = (take (length p) (c # cs) = p \<or> has_sub p cs)"

fun after_first :: "string \<Rightarrow> string \<Rightarrow> string option" where
  "after_first p [] = (if p = [] then Some [] else None)"
| "after_first p (c # cs) =
     (if take (length p) (c # cs) = p then Some (drop (length p) (c # cs))
      else after_first p cs)"

definition demo_haspattern :: "regex \<Rightarrow> string \<Rightarrow> bool" where
  "demo_haspattern rx t =
     (if pattern rx = non_space then list_ex (\<lambda>c. \<not> is_space c) t else has_sub (pattern rx) t)"

definition demo_rm_cmd_sub :: "string \<Rightarrow> string \<Rightarrow> string" where
  "demo_rm_cmd_sub cmd out =
     (case after_first cmd out of None \<Rightarrow> out | Some r \<Rightarrow> dropWhile (\<lambda>c. c = LF) r)"

text \<open>
  \<open>demo_compiles\<close>: the parentheses of the source are balanced (a backslash escapes the
  next character).
\<close>

fun balanced :: "nat \<Rightarrow> string \<Rightarrow> bool" where
  "balanced depth [] = (depth = 0)"
| "balanced depth [c] =
     (if c = CHR 0x5C \<or> c = CHR ''('' then False
      else if c = CHR '')'' then depth = 1 else depth = 0)"
| "balanced depth (c # d # cs) =
     (if c = CHR 0x5C then balanced depth cs
      else if c = CHR ''('' then balanced (depth + 1) (d # cs)
      else if c = CHR '')'' then (if depth = 0 then False else balanced (depth - 1) (d # cs))
      else balanced depth (d # cs))"

definition demo_compiles :: "string \<Rightarrow> bool" where
  "demo_compiles source = balanced 0 source"

text \<open>
  \<open>demo_findhighlight\<close>, for a text of one line: the line number, the mark of a line
  with a match, and the line with the first occurrence of the literal pattern between
  \<^verbatim>\<open>>>>\<close> and \<^verbatim>\<open><<<\<close>.
\<close>

fun wrap_first :: "string \<Rightarrow> string \<Rightarrow> string" where
  "wrap_first p [] = []"
| "wrap_first p (c # cs) =
     (if p \<noteq> [] \<and> take (length p) (c # cs) = p
      then ''>>>'' @ p @ ''<<<'' @ drop (length p) (c # cs)
      else c # wrap_first p cs)"

definition demo_findhighlight :: "regex \<Rightarrow> string \<Rightarrow> string" where
  "demo_findhighlight rx t = '' 1 -> '' @ wrap_first (pattern rx) t"

text \<open>
  For a \<^verbatim>\<open>ListExt\<close> the pattern is looked for in each line; for an object of another type
  the stand-in raises \<^verbatim>\<open>TypeError\<close>.
\<close>

fun demo_haspattern_obj :: "regex \<Rightarrow> pyobj \<Rightarrow> error + bool" where
  "demo_haspattern_obj rx (RStr s) = Inr (demo_haspattern rx s)"
| "demo_haspattern_obj rx (RList l) = Inr (list_ex (demo_haspattern rx) l)"
| "demo_haspattern_obj rx (ROther text type_text truth) = Inl TypeError"

fun demo_findhighlight_obj :: "regex \<Rightarrow> pyobj \<Rightarrow> error + string" where
  "demo_findhighlight_obj rx (RStr s) = Inr (demo_findhighlight rx s)"
| "demo_findhighlight_obj rx (RList l) = Inr (join [LF] l)"
| "demo_findhighlight_obj rx (ROther text type_text truth) = Inl TypeError"

definition demo_externals :: externals where
  "demo_externals =
     \<lparr> compiles = demo_compiles,
       haspattern = demo_haspattern,
       findhighlight = demo_findhighlight,
       haspattern_obj = demo_haspattern_obj,
       findhighlight_obj = demo_findhighlight_obj,
       rm_cmd_sub = demo_rm_cmd_sub,
       decode_utf8 = Some,
       format_ctx = Some \<rparr>"

text \<open>A transform that appends an exclamation mark to the result.\<close>

definition append_bang :: filter_func where
  "append_bang result key cmd = Inr (Some (result @ ''!''))"

subsection \<open>Pattern rewriting\<close>

text \<open>
  \<^verbatim>\<open>re.sub(r'^\^', r'[\r\n]', pat)\<close>: without \<^verbatim>\<open>re.MULTILINE\<close> the pattern \<^verbatim>\<open>^\^\<close>
  matches a caret at the start of the source only, and the replacement template
  \<^verbatim>\<open>[\r\n]\<close> stands for four characters: an opening bracket, a carriage return, a line
  feed and a closing bracket --- the character class of the two line-break characters.
\<close>

definition line_break_class :: string where
  "line_break_class = [CHR ''['', CR, LF, CHR '']'']"

fun sub_leading_caret :: "string \<Rightarrow> string" where
  "sub_leading_caret [] = []"
| "sub_leading_caret (c # cs) = (if c = CHR ''^'' then line_break_class @ cs else c # cs)"

text \<open>
  \<^verbatim>\<open>Expect._expect_pattern_rewrite(pat)\<close>: \<^verbatim>\<open>None\<close> becomes \<^verbatim>\<open>pexpect.EOF\<close>, a \<^verbatim>\<open>str\<close> has
  its leading caret replaced.
\<close>

definition expect_pattern_rewrite :: "string option \<Rightarrow> expect_pat" where
  "expect_pattern_rewrite pat =
     (case pat of None \<Rightarrow> EOF_pat | Some p \<Rightarrow> Pat (sub_leading_caret p))"

text \<open>\<^verbatim>\<open>str.encode()\<close>: UTF-8, for code points below 256.\<close>

definition encode_char :: "char \<Rightarrow> string" where
  "encode_char c =
     (if (of_char c :: nat) < 128 then [c]
      else [char_of (192 + (of_char c :: nat) div 64), char_of (128 + (of_char c :: nat) mod 64)])"

definition encode :: "string \<Rightarrow> string" where
  "encode s = concat (map encode_char s)"

text \<open>
  \<^verbatim>\<open>Telnet._normalize_pattern(pattern, default)\<close>. The argument is \<^verbatim>\<open>None\<close>, a \<^verbatim>\<open>str\<close>, a
  list of patterns, or one pattern that is no \<^verbatim>\<open>str\<close> (a \<^verbatim>\<open>bytes\<close> source or a compiled
  regular expression); the result is a list for \<^verbatim>\<open>telnetlib\<close>. \<^verbatim>\<open>re.I\<close> is the flag 2.
\<close>

datatype telnet_pat = Bytes string | Compiled regex

datatype telnet_arg = TStr string | TList "telnet_pat list" | TOther telnet_pat

definition normalize_pattern :: "telnet_arg option \<Rightarrow> string \<Rightarrow> telnet_pat list" where
  "normalize_pattern pat dflt =
     (case pat of
        None \<Rightarrow> [Compiled (Regex (encode dflt) 2)]
      | Some (TStr s) \<Rightarrow> [Bytes (sub_leading_caret (encode s))]
      | Some (TList l) \<Rightarrow> l
      | Some (TOther p) \<Rightarrow> [p])"

subsection \<open>The spawned child\<close>

text \<open>
  The values that meet in \<^verbatim>\<open>self.child.before + '.'\<close>: \<^verbatim>\<open>None\<close>, a \<^verbatim>\<open>bytes\<close> object or a
  \<^verbatim>\<open>str\<close>. Python's \<^verbatim>\<open>+\<close> joins two \<^verbatim>\<open>str\<close> or two \<^verbatim>\<open>bytes\<close> and raises \<^verbatim>\<open>TypeError\<close>
  on any other pair of these.
\<close>

datatype pyval = PyNone | PyBytes string | PyStr string

fun py_add :: "pyval \<Rightarrow> pyval \<Rightarrow> error + pyval" where
  "py_add (PyStr a) (PyStr b) = Inr (PyStr (a @ b))"
| "py_add (PyBytes a) (PyBytes b) = Inr (PyBytes (a @ b))"
| "py_add x y = Inl TypeError"

text \<open>
  The process behind \<^verbatim>\<open>self.child = pexpect.spawn(spawn)\<close> is a script: the outcomes of
  the coming calls of \<^verbatim>\<open>child.expect\<close>, in order.
  \<^item> \<open>Found i b\<close>: pattern number \<open>i\<close> of the list matched, and \<^verbatim>\<open>child.before\<close> becomes
    \<open>b\<close>. The child is spawned without an encoding, so \<^verbatim>\<open>pexpect\<close> reports \<^verbatim>\<open>bytes\<close>
    (\<^verbatim>\<open>_run_cmd\<close> decodes \<^verbatim>\<open>self.child.before\<close>); before the first read it is \<^verbatim>\<open>None\<close>.
  \<^item> \<open>Eof\<close>: the stream ended with no match and \<^verbatim>\<open>pexpect.EOF\<close> is raised. A script
    that is used up is a stream that has ended.
  \<^item> \<open>Alarm\<close>: the alarm of an enclosing \<^verbatim>\<open>Timeout\<close> block goes off during the read,
    and \<^verbatim>\<open>TimeoutError\<close> (of \<^verbatim>\<open>naghelp.tools\<close>) is raised from the signal handler.
  \<^item> \<open>PexpectTimeout\<close>: the timeout of the child itself (30 seconds, the default of
    \<^verbatim>\<open>pexpect.spawn\<close>, which the class does not change) runs out first with no match, and
    \<^verbatim>\<open>child.expect\<close> raises \<^verbatim>\<open>pexpect.TIMEOUT\<close>, which nothing in the module catches.

  On the three outcomes that raise, \<open>before\<close> is left as it was: the code does not
  read it again before the next \<open>Found\<close>. \<open>ops\<close> is the log of the calls made on the
  child.
\<close>

datatype read = Found nat pyval | Eof | Alarm | PexpectTimeout

datatype child_op = Expect "expect_pat list" | Sendline string | Send string | Kill nat

record child =
  pending :: "read list"
  before :: pyval
  ops :: "child_op list"

definition child_expect :: "child \<Rightarrow> expect_pat list \<Rightarrow> child \<times> read" where
  "child_expect c patterns =
     (case pending c of
        [] \<Rightarrow> (c\<lparr>ops := ops c @ [Expect patterns]\<rparr>, Eof)
      | r # rs \<Rightarrow>
          (c\<lparr>pending := rs,
             before := (case r of Found i b \<Rightarrow> b | Eof \<Rightarrow> before c | Alarm \<Rightarrow> before c
                        | PexpectTimeout \<Rightarrow> before c),
             ops := ops c @ [Expect patterns]\<rparr>, r))"

definition child_sendline :: "child \<Rightarrow> string \<Rightarrow> child" where
  "child_sendline c s = c\<lparr>ops := ops c @ [Sendline s]\<rparr>"

definition child_send :: "child \<Rightarrow> string \<Rightarrow> child" where
  "child_send c s = c\<lparr>ops := ops c @ [Send s]\<rparr>"

definition child_kill :: "child \<Rightarrow> nat \<Rightarrow> child" where
  "child_kill c sig = c\<lparr>ops := ops c @ [Kill sig]\<rparr>"

text \<open>A child that has not been read yet, with the given script.\<close>

definition fresh_child :: "read list \<Rightarrow> child" where
  "fresh_child rs = \<lparr>pending = rs, before = PyNone, ops = []\<rparr>"

subsection \<open>Steps\<close>

text \<open>
  The answer of a step is \<^verbatim>\<open>None\<close>, a \<^verbatim>\<open>str\<close> to send, or a number, of which
  \<^verbatim>\<open>Expect.KILL = 1\<close>, \<^verbatim>\<open>Expect.BREAK = 2\<close> and \<^verbatim>\<open>Expect.RESPONSE = 3\<close> are acted on.
\<close>

datatype to_send = Text string | Code int

definition KILL :: int where "KILL = 1"
definition BREAK :: int where "BREAK = 2"
definition RESPONSE :: int where "RESPONSE = 3"

text \<open>
  A step is a tuple \<^verbatim>\<open>(pattern, answer)\<close>. An element of \<^verbatim>\<open>steps\<close> is either one such
  tuple whose pattern is a \<^verbatim>\<open>str\<close> (\<open>Single\<close>) or a tuple of such tuples (\<open>Alts\<close>).
\<close>

type_synonym step = "string option \<times> to_send option"

datatype group = Single string "to_send option" | Alts "step list"

text \<open>
  \<^verbatim>\<open>if isinstance(expects[0], str): expects = (expects,)\<close>; \<^verbatim>\<open>expects[0]\<close> of an empty
  tuple raises \<^verbatim>\<open>IndexError\<close>.
\<close>

definition normalize_group :: "group \<Rightarrow> error + step list" where
  "normalize_group g =
     (case g of
        Single p a \<Rightarrow> Inr [(Some p, a)]
      | Alts es \<Rightarrow> (case es of [] \<Rightarrow> Inl IndexError | e # es' \<Rightarrow> Inr (e # es')))"

subsection \<open>The step engine\<close>

text \<open>
  What the body of \<^verbatim>\<open>if to_send is not None:\<close> does: go on with the iteration,
  \<^verbatim>\<open>break\<close>, or leave \<^verbatim>\<open>_expect_steps\<close> by \<^verbatim>\<open>return return_msg\<close> or by an exception.
\<close>

datatype action = Go | Break | Stop "error + pyval"

definition respond :: "externals \<Rightarrow> child \<Rightarrow> to_send option \<Rightarrow> child \<times> action" where
  "respond tx c to_send =
     (case to_send of
        None \<Rightarrow> (c, Go)
      | Some (Text s) \<Rightarrow>
          (case format_ctx tx s of
             None \<Rightarrow> (c, Stop (Inl FormatError))
           | Some t \<Rightarrow>
               if t \<noteq> [] \<and> last t = LF then (child_sendline c (butlast t), Go)
               else (child_send c t, Go))
      | Some (Code n) \<Rightarrow>
          if n = KILL then
            (case py_add (before c) (PyStr ''.'') of
               Inl e \<Rightarrow> (c, Stop (Inl e))
             | Inr return_msg \<Rightarrow> (child_kill c 0, Stop (Inr return_msg)))
          else if n = BREAK then (c, Break)
          else if n = RESPONSE then
            (case py_add (before c) (PyStr ''.'') of
               Inl e \<Rightarrow> (c, Stop (Inl e))
             | Inr return_msg \<Rightarrow> (c, Stop (Inr return_msg)))
          else (c, Go))"

text \<open>
  The \<^verbatim>\<open>else\<close> branch of the loop body: the patterns of the current group, followed by
  those of the next group when there is one, are given to \<^verbatim>\<open>child.expect\<close>. The result
  is \<^verbatim>\<open>found\<close>, \<^verbatim>\<open>expects\<close> and \<^verbatim>\<open>patterns\<close>.
\<close>

definition search ::
  "string \<Rightarrow> group list \<Rightarrow> nat \<Rightarrow> step list \<Rightarrow> child \<Rightarrow>
   child \<times> (error + nat \<times> step list \<times> expect_pat list)" where
  "search sp steps step base c =
     (case (if step + 1 < length steps then
              (case normalize_group (steps ! (step + 1)) of
                 Inl e \<Rightarrow> Inl e
               | Inr next_expects \<Rightarrow> Inr (base @ next_expects))
            else Inr base) of
        Inl e \<Rightarrow> (c, Inl e)
      | Inr expects \<Rightarrow>
          (let patterns = map (\<lambda>e. expect_pattern_rewrite (fst e)) expects in
           case child_expect c patterns of
             (c1, r) \<Rightarrow>
               (case r of
                  Found found b \<Rightarrow> (c1, Inr (found, expects, patterns))
                | Eof \<Rightarrow> (c1, Inl (CollectError (NoMoreData sp)))
                | Alarm \<Rightarrow> (c1, Inl TimeoutError)
                | PexpectTimeout \<Rightarrow> (c1, Inl PexpectTIMEOUT))))"

text \<open>
  One iteration of \<^verbatim>\<open>while step < nb_steps:\<close>, entered with \<^verbatim>\<open>step\<close> and
  \<^verbatim>\<open>infinite_loop_detect\<close>: it leaves the function (\<open>Return\<close>, with the value returned or
  the exception) or goes on with new values of the two variables (\<open>Next\<close>).
  \<^verbatim>\<open>expects[found]\<close> raises \<^verbatim>\<open>IndexError\<close> when \<^verbatim>\<open>found\<close> is out of range; the test
  \<^verbatim>\<open>step == nb_steps - 1\<close> is written \<open>step1 + 1 = length steps\<close>.
\<close>

datatype iter = Return "error + pyval" | Next nat nat

definition loop_body ::
  "externals \<Rightarrow> string \<Rightarrow> group list \<Rightarrow> nat \<Rightarrow> nat \<Rightarrow> child \<Rightarrow> child \<times> iter" where
  "loop_body tx sp steps step infinite_loop_detect c =
     (case normalize_group (steps ! step) of
        Inl e \<Rightarrow> (c, Return (Inl e))
      | Inr base \<Rightarrow>
          (let nb_base_expects = length base in
           case (if nb_base_expects = 1 \<and> fst (base ! 0) = None then (c, Inr (0, base, []))
                 else search sp steps step base c) of
             (c1, sr) \<Rightarrow>
               (case sr of
                  Inl e \<Rightarrow> (c1, Return (Inl e))
                | Inr (found, expects, patterns) \<Rightarrow>
                    if \<not> found < length expects then (c1, Return (Inl IndexError))
                    else
                      (case respond tx c1 (snd (expects ! found)) of
                         (c2, a) \<Rightarrow>
                           (case a of
                              Stop r \<Rightarrow> (c2, Return r)
                            | Break \<Rightarrow> (c2, Return (Inr (PyStr [])))
                            | Go \<Rightarrow>
                                (let step1 = (if found \<ge> nb_base_expects then step + 1 else step);
                                     detect1 = (if found \<ge> nb_base_expects then 0
                                                else infinite_loop_detect)
                                 in if found \<ge> nb_base_expects \<and> step1 + 1 = length steps
                                    then (c2, Return (Inr (PyStr [])))
                                    else if detect1 + 1 > 10
                                    then (c2, Return (Inl (CollectError (TooManyExpect patterns))))
                                    else (c2, Next step1 (detect1 + 1))))))))"

lemma loop_body_Next:
  assumes "loop_body tx sp steps step d c = (c', Next step' d')" and "step < length steps"
  shows "(step' = step + 1 \<and> d' = 1) \<or> (step' = step \<and> d' = d + 1 \<and> d' \<le> 10)"
  using assms
  by (auto simp: loop_body_def Let_def
      split: sum.splits prod.splits if_splits action.splits)

text \<open>
  \<^verbatim>\<open>Expect._expect_steps(steps)\<close>: the loop from \<^verbatim>\<open>step\<close> and
  \<^verbatim>\<open>infinite_loop_detect\<close>, and the function, which enters it with both at 0. The value
  returned is \<^verbatim>\<open>''\<close> after the loop, or the \<^verbatim>\<open>return_msg\<close> of a step.
\<close>

function expect_steps_loop ::
  "externals \<Rightarrow> string \<Rightarrow> group list \<Rightarrow> nat \<Rightarrow> nat \<Rightarrow> child \<Rightarrow> child \<times> (error + pyval)" where
  "expect_steps_loop tx sp steps step infinite_loop_detect c =
     (if step < length steps then
        (case loop_body tx sp steps step infinite_loop_detect c of
           (c', it) \<Rightarrow>
             (case it of
                Return r \<Rightarrow> (c', r)
              | Next step' detect' \<Rightarrow> expect_steps_loop tx sp steps step' detect' c'))
      else (c, Inr (PyStr [])))"
  by pat_completeness auto
termination
proof (relation "measures [\<lambda>(tx, sp, steps, step, d, c). length steps - step,
                           \<lambda>(tx, sp, steps, step, d, c). 11 - d]")
  show "wf (measures [\<lambda>(tx, sp, steps, step, d, c). length steps - step,
                      \<lambda>(tx, sp, steps, step, d, c). 11 - d])"
    by simp
next
  fix tx :: externals and sp steps step d c c' it step' d'
  assume "step < length steps" and "(c', it) = loop_body tx sp steps step d c"
    and "it = Next step' d'"
  then have "loop_body tx sp steps step d c = (c', Next step' d')" by simp
  from loop_body_Next [OF this \<open>step < length steps\<close>] \<open>step < length steps\<close>
  show "((tx, sp, steps, step', d', c'), (tx, sp, steps, step, d, c))
        \<in> measures [\<lambda>(tx, sp, steps, step, d, c). length steps - step,
                     \<lambda>(tx, sp, steps, step, d, c). 11 - d]"
    by auto
qed

declare expect_steps_loop.simps [simp del]

definition expect_steps ::
  "externals \<Rightarrow> string \<Rightarrow> group list \<Rightarrow> child \<Rightarrow> child \<times> (error + pyval)" where
  "expect_steps tx sp steps c = expect_steps_loop tx sp steps 0 0 c"

subsection \<open>The Expect session\<close>

text \<open>
  The attributes of an \<^verbatim>\<open>Expect\<close> object that \<^verbatim>\<open>run\<close>, \<^verbatim>\<open>mrun\<close> and \<^verbatim>\<open>close\<close> read or
  write. \<^verbatim>\<open>logout_steps\<close> is \<open>[]\<close> for \<^verbatim>\<open>None\<close> or an empty tuple; \<open>filter_attr\<close> is
  \<^verbatim>\<open>self.filter\<close>.
\<close>

record session =
  spawn :: string
  prompt :: "string option"
  logout_cmd :: "string option"
  logout_steps :: "group list"
  child :: child
  in_with :: bool
  is_connected :: bool
  expected_pattern :: "pattern_arg option"
  unexpected_pattern :: "pattern_arg option"
  filter_attr :: "filter_func option"

text \<open>
  An argument of \<^verbatim>\<open>run\<close> or \<^verbatim>\<open>mrun\<close> whose default \<^verbatim>\<open>0\<close> means: use the value defined at
  object level (\<^verbatim>\<open>x if x != 0 else self.x\<close>).
\<close>

datatype 'a arg = Zero | Given 'a

definition or_object_level :: "'a arg \<Rightarrow> 'a \<Rightarrow> 'a" where
  "or_object_level a v = (case a of Zero \<Rightarrow> v | Given x \<Rightarrow> x)"

text \<open>\<^verbatim>\<open>re.sub(r'[\r\n]*$', '', out)\<close>: the carriage returns and line feeds at the end go.\<close>

definition rstrip_crlf :: "string \<Rightarrow> string" where
  "rstrip_crlf out = rev (dropWhile (\<lambda>ch. ch = CR \<or> ch = LF) (rev out))"

text \<open>
  \<^verbatim>\<open>Expect._run_cmd(cmd)\<close>. The command is sent when it is not empty (\<open>send_cmd\<close> is
  \<^verbatim>\<open>if cmd: self.child.sendline('%s' % cmd)\<close>), the prompt is
  awaited, and the text before the prompt is decoded and cleaned. A \<^verbatim>\<open>str\<close> has no
  \<^verbatim>\<open>decode\<close>; \<open>rm_cmd_source cmd\<close> is the source \<^verbatim>\<open>r'^.*?%s\n*' % cmd\<close>, which
  \<^verbatim>\<open>re.compile\<close> may refuse; \<^verbatim>\<open>rm_cmd.sub('', out)\<close> raises \<^verbatim>\<open>TypeError\<close> for \<^verbatim>\<open>None\<close>.
\<close>

definition send_cmd :: "child \<Rightarrow> string option \<Rightarrow> child" where
  "send_cmd c cmd =
     (if cmd \<noteq> None \<and> cmd \<noteq> Some [] then child_sendline c (py_str cmd) else c)"

definition rm_cmd_source :: "string option \<Rightarrow> string" where
  "rm_cmd_source cmd = ''^.*?'' @ py_str cmd @ [CHR 0x5C, CHR ''n'', CHR ''*'']"

definition run_cmd :: "externals \<Rightarrow> session \<Rightarrow> string option \<Rightarrow> session \<times> (error + string)" where
  "run_cmd tx s cmd =
     (case child_expect (send_cmd (child s) cmd) [expect_pattern_rewrite (prompt s)] of
           (c1, r) \<Rightarrow>
             (case r of
                Eof \<Rightarrow> (s\<lparr>child := c1\<rparr>, Inl (CollectError (NoMoreData (spawn s))))
              | Alarm \<Rightarrow> (s\<lparr>child := c1\<rparr>, Inl TimeoutError)
              | PexpectTimeout \<Rightarrow> (s\<lparr>child := c1\<rparr>, Inl PexpectTIMEOUT)
              | Found i b \<Rightarrow>
                  (s\<lparr>child := c1\<rparr>,
                   case (case before c1 of
                           PyNone \<Rightarrow> Inr None
                         | PyStr t \<Rightarrow> Inl AttributeError
                         | PyBytes bs \<Rightarrow>
                             (case decode_utf8 tx bs of
                                None \<Rightarrow> Inl UnicodeDecodeError
                              | Some out \<Rightarrow> Inr (Some out))) of
                     Inl e \<Rightarrow> Inl e
                   | Inr out \<Rightarrow>
                       if \<not> compiles tx (rm_cmd_source cmd) then Inl ReError
                       else
                         (case out of
                            None \<Rightarrow> Inl TypeError
                          | Some out' \<Rightarrow>
                              Inr (filter (\<lambda>ch. ch \<noteq> CR)
                                     (rstrip_crlf (rm_cmd_sub tx (py_str cmd) out')))))))"

text \<open>
  \<^verbatim>\<open>Expect.close()\<close>. Inside a \<^verbatim>\<open>with\<close> block it does nothing. The value returned by
  \<^verbatim>\<open>_expect_steps\<close> is dropped, an exception of it goes up; \<^verbatim>\<open>self.child.kill(0)\<close> ends
  the function.
\<close>

definition close :: "externals \<Rightarrow> session \<Rightarrow> session \<times> (error + unit)" where
  "close tx s =
     (if \<not> in_with s then
        (let s1 = s\<lparr>is_connected := False\<rparr>;
             c1 = (case logout_cmd s1 of
                     None \<Rightarrow> child s1
                   | Some l \<Rightarrow> if l \<noteq> [] then child_sendline (child s1) l else child s1)
         in case (if logout_steps s1 \<noteq> [] then expect_steps tx (spawn s1) (logout_steps s1) c1
                  else (c1, Inr (PyStr []))) of
              (c2, r) \<Rightarrow>
                (case r of
                   Inl e \<Rightarrow> (s1\<lparr>child := c2\<rparr>, Inl e)
                 | Inr m \<Rightarrow> (s1\<lparr>child := child_kill c2 0\<rparr>, Inr ())))
      else (s, Inr ()))"

text \<open>\<^verbatim>\<open>__enter__\<close> and \<^verbatim>\<open>__exit__\<close> of the \<^verbatim>\<open>with\<close> statement.\<close>

definition enter :: "session \<Rightarrow> session" where
  "enter s = s\<lparr>in_with := True\<rparr>"

definition exit :: "externals \<Rightarrow> session \<Rightarrow> session \<times> (error + unit)" where
  "exit tx s = close tx (s\<lparr>in_with := False\<rparr>)"

definition not_connected :: error where
  "not_connected = NotConnected ''No expect connection to run your command.''"

text \<open>
  \<^verbatim>\<open>Expect.run(cmd, timeout, auto_close, expected_pattern, unexpected_pattern, filter)\<close>.
  The \<^verbatim>\<open>timeout\<close> seconds are not an argument here: whether the alarm goes off during
  the read is the child's \<open>Alarm\<close>.
\<close>

definition run ::
  "externals \<Rightarrow> session \<Rightarrow> string option \<Rightarrow> bool \<Rightarrow> pattern_arg option arg \<Rightarrow>
   pattern_arg option arg \<Rightarrow> filter_func option arg \<Rightarrow> session \<times> (error + string)" where
  "run tx s cmd auto_close ep up ff =
     (if \<not> is_connected s then (s, Inl not_connected)
      else
        (case run_cmd tx s cmd of
           (s1, r) \<Rightarrow>
             (case (case r of
                      Inl e \<Rightarrow> if e = TimeoutError then Inr timeout_str else Inl e
                    | Inr out \<Rightarrow> Inr out) of
                Inl e \<Rightarrow> (s1, Inl e)
              | Inr out \<Rightarrow>
                  (case (if auto_close then close tx s1 else (s1, Inr ())) of
                     (s2, cr) \<Rightarrow>
                       (case cr of
                          Inl e \<Rightarrow> (s2, Inl e)
                        | Inr u \<Rightarrow>
                            (s2, filter_result tx out [] cmd
                                   (or_object_level ep (expected_pattern s2))
                                   (or_object_level up (unexpected_pattern s2))
                                   (or_object_level ff (filter_attr s2))))))))"

text \<open>
  The \<^verbatim>\<open>for k, cmd in cmds:\<close> loop of \<^verbatim>\<open>Expect.mrun\<close>, with the three effective
  validation arguments and the dictionary built so far (an association list in insertion
  order; \<^verbatim>\<open>dct[k] = v\<close> is \<open>AList.update\<close>). The \<^verbatim>\<open>try\<close> body is \<^verbatim>\<open>_run_cmd\<close> followed, for a
  key that is not empty, by \<^verbatim>\<open>_filter_result\<close>; a \<^verbatim>\<open>TimeoutError\<close> from it is handled by
  validating \<^verbatim>\<open>'<timeout>'\<close> in its place.
\<close>

fun mrun_loop ::
  "externals \<Rightarrow> session \<Rightarrow> (string \<times> string option) list \<Rightarrow> pattern_arg option \<Rightarrow>
   pattern_arg option \<Rightarrow> filter_func option \<Rightarrow> (string \<times> string) list \<Rightarrow>
   session \<times> (error + (string \<times> string) list)" where
  "mrun_loop tx s [] ep up ff dct = (s, Inr dct)"
| "mrun_loop tx s ((k, cmd) # cmds) ep up ff dct =
     (case run_cmd tx s cmd of
        (s1, r) \<Rightarrow>
          (case (case r of
                   Inl e \<Rightarrow> Inl e
                 | Inr output \<Rightarrow>
                     if k \<noteq> [] then
                       (case filter_result tx output k cmd ep up ff of
                          Inl e \<Rightarrow> Inl e
                        | Inr v \<Rightarrow> Inr (AList.update k v dct))
                     else Inr dct) of
             Inl e \<Rightarrow>
               if e = TimeoutError then
                 (if k \<noteq> [] then
                    (case filter_result tx timeout_str k cmd ep up ff of
                       Inl e' \<Rightarrow> (s1, Inl e')
                     | Inr v \<Rightarrow> mrun_loop tx s1 cmds ep up ff (AList.update k v dct))
                  else mrun_loop tx s1 cmds ep up ff dct)
               else (s1, Inl e)
           | Inr dct1 \<Rightarrow> mrun_loop tx s1 cmds ep up ff dct1))"

declare mrun_loop.simps [simp del]

text \<open>\<^verbatim>\<open>Expect.mrun(cmds, timeout, auto_close, expected_pattern, unexpected_pattern, filter)\<close>\<close>

definition mrun ::
  "externals \<Rightarrow> session \<Rightarrow> (string \<times> string option) list \<Rightarrow> bool \<Rightarrow> pattern_arg option arg \<Rightarrow>
   pattern_arg option arg \<Rightarrow> filter_func option arg \<Rightarrow>
   session \<times> (error + (string \<times> string) list)" where
  "mrun tx s cmds auto_close ep up ff =
     (if \<not> is_connected s then (s, Inl not_connected)
      else
        (case mrun_loop tx s cmds (or_object_level ep (expected_pattern s))
                (or_object_level up (unexpected_pattern s))
                (or_object_level ff (filter_attr s)) [] of
           (s1, r) \<Rightarrow>
             (case r of
                Inl e \<Rightarrow> (s1, Inl e)
              | Inr dct \<Rightarrow>
                  (case (if auto_close then close tx s1 else (s1, Inr ())) of
                     (s2, cr) \<Rightarrow>
                       (case cr of
                          Inl e \<Rightarrow> (s2, Inl e)
                        | Inr u \<Rightarrow> (s2, Inr dct))))))"

text \<open>
  A connected session as \<^verbatim>\<open>Expect(spawn, prompt=..., logout_cmd='exit')\<close> leaves it: the
  validation arguments have their defaults.
\<close>

definition demo_session :: "read list \<Rightarrow> session" where
  "demo_session rs =
     \<lparr> spawn = ''ssh www@localhost'', prompt = Some ''www@[^$]*[$] '',
       logout_cmd = Some ''exit'', logout_steps = [],
       child = fresh_child rs, in_with = False, is_connected = True,
       expected_pattern = default_expected, unexpected_pattern = default_unexpected,
       filter_attr = None \<rparr>"

subsection \<open>Vocabulary for the properties\<close>

text \<open>The steps of a group that is not an empty tuple, as \<open>normalize_group\<close> gives them.\<close>

definition group_steps :: "group \<Rightarrow> step list" where
  "group_steps g = (case g of Single p a \<Rightarrow> [(Some p, a)] | Alts es \<Rightarrow> es)"

text \<open>No group of the sequence is an empty tuple.\<close>

definition nonempty_groups :: "group list \<Rightarrow> bool" where
  "nonempty_groups steps = list_all (\<lambda>g. g \<noteq> Alts []) steps"

text \<open>The test \<^verbatim>\<open>nb_base_expects == 1 and expects[0][0] is None\<close>.\<close>

definition unconditional :: "step list \<Rightarrow> bool" where
  "unconditional base = (length base = 1 \<and> fst (base ! 0) = None)"

text \<open>
  The list given to \<^verbatim>\<open>child.expect\<close> when the cursor is on \<open>step\<close>: the patterns of the
  group, then those of the next group if there is one.
\<close>

definition search_patterns :: "group list \<Rightarrow> nat \<Rightarrow> expect_pat list" where
  "search_patterns steps step =
     map (\<lambda>e. expect_pattern_rewrite (fst e))
       (group_steps (steps ! step) @
        (if step + 1 < length steps then group_steps (steps ! (step + 1)) else []))"

text \<open>The outcome of the next read of the child.\<close>

definition next_read :: "child \<Rightarrow> read" where
  "next_read c = (case pending c of [] \<Rightarrow> Eof | r # rs \<Rightarrow> r)"

text \<open>
  An answer after which the iteration goes on: \<^verbatim>\<open>None\<close>, a \<^verbatim>\<open>str\<close> that formats, or a
  number that is none of the three control values.
\<close>

fun goes_on :: "externals \<Rightarrow> to_send option \<Rightarrow> bool" where
  "goes_on tx None = True"
| "goes_on tx (Some (Text s)) = (format_ctx tx s \<noteq> None)"
| "goes_on tx (Some (Code n)) = (n \<noteq> KILL \<and> n \<noteq> BREAK \<and> n \<noteq> RESPONSE)"

text \<open>
  A read that matches one of the patterns number \<open>lo\<close> to \<open>hi - 1\<close> of \<open>expects\<close>, with an
  answer after which the iteration goes on.
\<close>

fun match_in :: "externals \<Rightarrow> step list \<Rightarrow> nat \<Rightarrow> nat \<Rightarrow> read \<Rightarrow> bool" where
  "match_in tx expects lo hi (Found i b) =
     (lo \<le> i \<and> i < hi \<and> i < length expects \<and> goes_on tx (snd (expects ! i)))"
| "match_in tx expects lo hi Eof = False"
| "match_in tx expects lo hi Alarm = False"
| "match_in tx expects lo hi PexpectTimeout = False"

text \<open>A match of one of the own patterns of the group on which the cursor is.\<close>

definition own_match :: "externals \<Rightarrow> group list \<Rightarrow> nat \<Rightarrow> read \<Rightarrow> bool" where
  "own_match tx steps step r =
     match_in tx (group_steps (steps ! step)) 0 (length (group_steps (steps ! step))) r"

text \<open>A match of one of the patterns of the next group.\<close>

definition lookahead_match :: "externals \<Rightarrow> group list \<Rightarrow> nat \<Rightarrow> read \<Rightarrow> bool" where
  "lookahead_match tx steps step r =
     match_in tx (group_steps (steps ! step) @ group_steps (steps ! (step + 1)))
       (length (group_steps (steps ! step)))
       (length (group_steps (steps ! step)) + length (group_steps (steps ! (step + 1)))) r"

text \<open>How many times the child was asked to read with the given list of patterns.\<close>

definition count_expects :: "expect_pat list \<Rightarrow> child \<Rightarrow> nat" where
  "count_expects patterns c = length (filter (\<lambda>x. x = Expect patterns) (ops c))"

subsection \<open>Example step sequences\<close>

text \<open>
  \<^verbatim>\<open>(((None, 'hello\n'),), ('[$] ', None))\<close>: a group of one step whose pattern is \<^verbatim>\<open>None\<close>,
  then the prompt.
\<close>

definition hello_steps :: "group list" where
  "hello_steps = [Alts [(None, Some (Text (''hello'' @ [LF])))], Single ''[$] '' None]"

text \<open>
  \<^verbatim>\<open>((('denied', a), ('Password: ', 'pw\n')), ('[$] ', None))\<close> for an answer \<^verbatim>\<open>a\<close> that is
  one of the control values.
\<close>

definition control_steps :: "int \<Rightarrow> group list" where
  "control_steps a =
     [Alts [(Some ''denied'', Some (Code a)), (Some ''Password: '', Some (Text (''pw'' @ [LF])))],
      Single ''[$] '' None]"

text \<open>\<^verbatim>\<open>(('A', 'a\n'), ('B', 'b\n'), ('C', None))\<close>\<close>

definition abc_steps :: "group list" where
  "abc_steps =
     [Single ''A'' (Some (Text (''a'' @ [LF]))), Single ''B'' (Some (Text (''b'' @ [LF]))),
      Single ''C'' None]"

subsection \<open>An example batch\<close>

text \<open>
  Three commands for \<^verbatim>\<open>mrun\<close>, and a child that answers the first with \<^verbatim>\<open>1\<close>, lets the
  alarm go off during the second and answers the third with \<^verbatim>\<open>3\<close>.
\<close>

definition demo_cmds :: "(string \<times> string option) list" where
  "demo_cmds = [(''a'', Some ''echo 1''), (''b'', Some ''sleep 100''), (''c'', Some ''echo 3'')]"

definition demo_reads :: "read list" where
  "demo_reads = [Found 0 (PyBytes ''1''), Alarm, Found 0 (PyBytes ''3'')]"

text \<open>A connected session whose child answers one command with \<^verbatim>\<open>ok\<close>.\<close>

definition ok_session :: session where
  "ok_session = demo_session [Found 0 (PyBytes ''ok'')]"

section \<open>Properties of result validation\<close>

lemma unexpected_check_empty: "unexpected_check tx [] key cmd up = compile_error tx up"
  by (simp add: unexpected_check_def compile_error_def split: option.splits sum.splits)

lemma raise_unexpected_result_empty:
  "raise_unexpected_result [] key cmd help_str =
     UnexpectedResultError
       (''Unexpected result '' @ (if key \<noteq> [] then ''for command key \"'' @ key @ ''\"'' else []) @
        [LF] @ ''Command = '' @ py_str cmd @ [LF] @ help_str @ [LF, LF] @ ''<empty result>'' @
        [LF, LF] @
        ''NOTE : Due to nagios restrictions, pipe symbol has been replaced by \"!\"'')"
  by (simp add: raise_unexpected_result_def)

lemma non_space_nonempty [simp]: "non_space \<noteq> []"
  by (simp add: non_space_def)

lemma demo_no_non_space_in_empty: "\<not> haspattern demo_externals (re_compile non_space) []"
  by (simp add: demo_externals_def demo_haspattern_def re_compile_def)

lemma demo_compiles_non_space: "compiles demo_externals non_space"
  by (simp add: demo_externals_def demo_compiles_def non_space_def)

lemma demo_compiles_timeout_str: "compiles demo_externals timeout_str"
  by (simp add: demo_externals_def demo_compiles_def timeout_str_def)

lemma demo_compile_error_default_unexpected:
  "compile_error demo_externals default_unexpected = None"
  by (simp add: compile_error_def default_unexpected_def demo_compiles_timeout_str)

text \<open>
  C5. With the default expected pattern \<^verbatim>\<open>\S\<close> and no transform, an empty result raises
  \<^verbatim>\<open>UnexpectedResultError\<close> whose message carries \<^verbatim>\<open>-> empty result\<close> and
  \<^verbatim>\<open><empty result>\<close>; with \<^verbatim>\<open>expected_pattern=None\<close> the expected-pattern check is off and
  the empty result is returned. Both hold for every unexpected pattern that raises no
  \<^verbatim>\<open>re.error\<close> (it is \<^verbatim>\<open>None\<close>, empty, compiled already, or a source that compiles):
  it is not matched against the empty result. What is used of the library is that
  \<^verbatim>\<open>\S\<close> compiles and that the matcher finds no \<^verbatim>\<open>\S\<close> in the empty text.
\<close>

theorem c5_empty_result:
  assumes "\<not> haspattern tx (re_compile non_space) []" and "compiles tx non_space"
    and "compile_error tx up = None"
  shows "filter_result tx [] key cmd default_expected up None =
           Inl (UnexpectedResultError
             (''Unexpected result '' @
              (if key \<noteq> [] then ''for command key \"'' @ key @ ''\"'' else []) @ [LF] @
              ''Command = '' @ py_str cmd @ [LF] @ ''-> empty result'' @ [LF, LF] @
              ''<empty result>'' @ [LF, LF] @
              ''NOTE : Due to nagios restrictions, pipe symbol has been replaced by \"!\"''))
         \<and> filter_result tx [] key cmd None up None = Inr []"
proof
  have "expected_check tx [] key cmd default_expected =
          Some (raise_unexpected_result [] key cmd ''-> empty result'')"
    using assms(1,2) by (simp add: expected_check_def default_expected_def re_compile_def)
  then show "filter_result tx [] key cmd default_expected up None =
           Inl (UnexpectedResultError
             (''Unexpected result '' @
              (if key \<noteq> [] then ''for command key \"'' @ key @ ''\"'' else []) @ [LF] @
              ''Command = '' @ py_str cmd @ [LF] @ ''-> empty result'' @ [LF, LF] @
              ''<empty result>'' @ [LF, LF] @
              ''NOTE : Due to nagios restrictions, pipe symbol has been replaced by \"!\"''))"
    by (simp add: filter_result_def apply_filter_def raise_unexpected_result_empty
        unexpected_check_empty assms(3))
next
  show "filter_result tx [] key cmd None up None = Inr []"
    by (simp add: filter_result_def apply_filter_def expected_check_def
        unexpected_check_empty assms(3))
qed

theorem c5_empty_result_witness:
  "\<not> haspattern demo_externals (re_compile non_space) []
   \<and> compiles demo_externals non_space
   \<and> compile_error demo_externals default_unexpected = None
   \<and> filter_result demo_externals [] ''a'' (Some ''ls'') default_expected default_unexpected None =
       Inl (UnexpectedResultError
         (''Unexpected result for command key \"a\"'' @ [LF] @
          ''Command = ls'' @ [LF] @ ''-> empty result'' @ [LF, LF] @
          ''<empty result>'' @ [LF, LF] @
          ''NOTE : Due to nagios restrictions, pipe symbol has been replaced by \"!\"''))
   \<and> filter_result demo_externals [] ''a'' (Some ''ls'') None default_unexpected None = Inr []"
  using c5_empty_result [OF demo_no_non_space_in_empty demo_compiles_non_space
          demo_compile_error_default_unexpected, of "''a''" "Some ''ls''"]
        demo_no_non_space_in_empty demo_compiles_non_space demo_compile_error_default_unexpected
  by (simp add: py_str_def)

lemma unexpected_check_obj_str:
  "unexpected_check_obj tx (RStr r) key cmd up = unexpected_check tx r key cmd up"
  by (simp add: unexpected_check_obj_def unexpected_check_def split: option.splits sum.splits)

lemma expected_check_obj_str:
  "expected_check_obj tx (RStr r) key cmd ep = expected_check tx r key cmd ep"
  by (simp add: expected_check_obj_def expected_check_def split: option.splits sum.splits)

text \<open>On a \<^verbatim>\<open>str\<close> result the two embeddings of \<^verbatim>\<open>_filter_result\<close> agree.\<close>

lemma filter_result_obj_str:
  "filter_result_obj tx (RStr r) key cmd ep up None =
     (case filter_result tx r key cmd ep up None of Inl e \<Rightarrow> Inl e | Inr v \<Rightarrow> Inr (RStr v))"
  by (simp add: filter_result_obj_def filter_result_def apply_filter_obj_def apply_filter_def
      unexpected_check_obj_str expected_check_obj_str split: option.splits)

lemma unexpected_check_obj_falsy:
  "\<not> truthy t \<Longrightarrow> unexpected_check_obj tx t key cmd up = compile_error tx up"
  by (simp add: unexpected_check_obj_def compile_error_def split: option.splits sum.splits)

text \<open>
  C10, as stated, fails for an unexpected pattern that is a \<^verbatim>\<open>str\<close> which does not
  compile: the pattern is compiled before the result is looked at, so an empty result
  with no expected pattern fails with \<^verbatim>\<open>re.error\<close>, raised in the unexpected-pattern
  block.
\<close>

theorem c10_malformed_unexpected_pattern:
  "filter_result demo_externals [] ''a'' (Some ''ls'') None (Some (PStr ''('')) None = Inl ReError
   \<and> filter_result_obj demo_externals (RStr []) ''a'' (Some ''ls'') None (Some (PStr ''('')) None
       = Inl ReError"
  by (simp add: filter_result_def apply_filter_def unexpected_check_def
      filter_result_obj_def apply_filter_obj_def unexpected_check_obj_def
      demo_externals_def demo_compiles_def)

text \<open>
  C10, amended. When the result, after the transform, is false (an empty \<^verbatim>\<open>str\<close>, an
  empty list, or another object whose truth value is false), the unexpected pattern is
  not matched against it: all the unexpected-pattern block can do is raise \<^verbatim>\<open>re.error\<close>
  for a \<^verbatim>\<open>str\<close> pattern that does not compile. For an unexpected pattern that raises no
  such error the outcome is the one of the expected-pattern block alone, the same as
  with no unexpected pattern.
\<close>

theorem c10_falsy_skips_unexpected_match:
  assumes "apply_filter_obj f result key cmd = Inr t" and "\<not> truthy t"
  shows "unexpected_check_obj tx t key cmd up = compile_error tx up
         \<and> (compile_error tx up = None \<longrightarrow>
              filter_result_obj tx result key cmd ep up f =
                (case expected_check_obj tx t key cmd ep of Some e \<Rightarrow> Inl e | None \<Rightarrow> Inr t)
              \<and> filter_result_obj tx result key cmd ep up f =
                  filter_result_obj tx result key cmd ep None f)
         \<and> (compile_error tx up = Some e \<longrightarrow>
              filter_result_obj tx result key cmd ep up f = Inl e)"
  using assms
  by (simp add: filter_result_obj_def unexpected_check_obj_falsy compile_error_def)

lemma demo_empty_text_has_empty_pattern:
  "haspattern demo_externals (Regex [] 0) []"
  by (simp add: demo_externals_def demo_haspattern_def non_space_def)

theorem c10_falsy_skips_unexpected_match_witness:
  "apply_filter_obj None (RStr []) ''a'' (Some ''ls'') = Inr (RStr [])
   \<and> \<not> truthy (RStr [])
   \<and> apply_filter_obj None (RList []) ''a'' (Some ''ls'') = Inr (RList [])
   \<and> \<not> truthy (RList [])
   \<and> haspattern demo_externals (Regex [] 0) []
   \<and> compile_error demo_externals (Some (PRegex (Regex [] 0))) = None
   \<and> compile_error demo_externals (Some (PStr ''('')) = Some ReError
   \<and> filter_result_obj demo_externals (RStr []) ''a'' (Some ''ls'') None
        (Some (PRegex (Regex [] 0))) None = Inr (RStr [])
   \<and> filter_result_obj demo_externals (RList []) ''a'' (Some ''ls'') None
        (Some (PRegex (Regex [] 0))) None = Inr (RList [])
   \<and> filter_result_obj demo_externals (RList []) ''a'' (Some ''ls'') None
        (Some (PStr ''('')) None = Inl ReError"
proof -
  have h: "apply_filter_obj None (RStr []) ''a'' (Some ''ls'') = Inr (RStr [])"
    "apply_filter_obj None (RList []) ''a'' (Some ''ls'') = Inr (RList [])"
    by (simp_all add: apply_filter_obj_def)
  have t: "\<not> truthy (RStr [])" "\<not> truthy (RList [])" by simp_all
  have c: "compile_error demo_externals (Some (PRegex (Regex [] 0))) = None"
    "compile_error demo_externals (Some (PStr ''('')) = Some ReError"
    by (simp_all add: compile_error_def demo_externals_def demo_compiles_def)
  show ?thesis
    using c10_falsy_skips_unexpected_match [OF h(1) t(1), of demo_externals
            "Some (PRegex (Regex [] 0))" None ReError]
          c10_falsy_skips_unexpected_match [OF h(2) t(2), of demo_externals
            "Some (PRegex (Regex [] 0))" None ReError]
          c10_falsy_skips_unexpected_match [OF h(2) t(2), of demo_externals
            "Some (PStr ''('')" None ReError]
          h t c demo_empty_text_has_empty_pattern
    by (simp add: expected_check_obj_def)
qed

text \<open>
  C6, as stated, fails where a transform is supplied: the transform is applied at every
  validation, so the value returned by one validation is changed again by the next.
  With the transform that appends \<^verbatim>\<open>!\<close> and the expected pattern \<^verbatim>\<open>OK\<close>, \<^verbatim>\<open>OK\<close>
  validates to \<^verbatim>\<open>OK!\<close>, and \<^verbatim>\<open>OK!\<close> validates to \<^verbatim>\<open>OK!!\<close>.
\<close>

theorem c6_transform_not_idempotent:
  "filter_result demo_externals ''OK'' ''k'' (Some ''c'') (Some (PStr ''OK'')) None
     (Some append_bang) = Inr ''OK!''
   \<and> filter_result demo_externals ''OK!'' ''k'' (Some ''c'') (Some (PStr ''OK'')) None
     (Some append_bang) = Inr ''OK!!''"
  by (simp add: filter_result_def apply_filter_def append_bang_def unexpected_check_def
      expected_check_def re_compile_def demo_externals_def demo_haspattern_def non_space_def
      demo_compiles_def)

text \<open>
  C6, amended. Validation transforms first and tests the transformed text \<open>t\<close>: an
  unexpected match on \<open>t\<close> is the failure reported, whatever the expected pattern is; else
  a missing expected pattern on \<open>t\<close> is the failure; else \<open>t\<close> is returned as it is.
  Validating a returned value \<open>v\<close> again returns \<open>v\<close> when the transform leaves \<open>v\<close> as it
  is, in particular when there is no transform.
\<close>

theorem c6_order_and_idempotence:
  "(apply_filter f result key cmd = Inr t \<longrightarrow>
      filter_result tx result key cmd ep up f =
        (case unexpected_check tx t key cmd up of
           Some e \<Rightarrow> Inl e
         | None \<Rightarrow> (case expected_check tx t key cmd ep of Some e \<Rightarrow> Inl e | None \<Rightarrow> Inr t)))
   \<and> (filter_result tx result key cmd ep up f = Inr v \<longrightarrow>
        apply_filter f result key cmd = Inr v
        \<and> (apply_filter f v key cmd = Inr v \<longrightarrow> filter_result tx v key cmd ep up f = Inr v))
   \<and> (filter_result tx result key cmd ep up None = Inr v \<longrightarrow>
        v = result \<and> filter_result tx v key cmd ep up None = Inr v)"
proof (intro conjI impI)
  assume "apply_filter f result key cmd = Inr t"
  then show "filter_result tx result key cmd ep up f =
        (case unexpected_check tx t key cmd up of
           Some e \<Rightarrow> Inl e
         | None \<Rightarrow> (case expected_check tx t key cmd ep of Some e \<Rightarrow> Inl e | None \<Rightarrow> Inr t))"
    by (simp add: filter_result_def)
next
  assume r: "filter_result tx result key cmd ep up f = Inr v"
  then show a: "apply_filter f result key cmd = Inr v"
    by (simp add: filter_result_def split: sum.splits option.splits)
  assume "apply_filter f v key cmd = Inr v"
  with r a show "filter_result tx v key cmd ep up f = Inr v"
    by (simp add: filter_result_def)
next
  assume r: "filter_result tx result key cmd ep up None = Inr v"
  then show a: "v = result"
    by (simp add: filter_result_def apply_filter_def split: option.splits)
  from r a show "filter_result tx v key cmd ep up None = Inr v"
    by simp
qed

theorem c6_order_and_idempotence_witness:
  "apply_filter None ''OK'' ''k'' (Some ''c'') = Inr ''OK''
   \<and> unexpected_check demo_externals ''OK'' ''k'' (Some ''c'') default_unexpected = None
   \<and> expected_check demo_externals ''OK'' ''k'' (Some ''c'') (Some (PStr ''OK'')) = None
   \<and> filter_result demo_externals ''OK'' ''k'' (Some ''c'') (Some (PStr ''OK''))
        default_unexpected None = Inr ''OK''"
  using c6_order_and_idempotence [of None "''OK''" "''k''" "Some ''c''" "''OK''" demo_externals
          "Some (PStr ''OK'')" default_unexpected "''OK''"]
  by (simp add: apply_filter_def unexpected_check_def expected_check_def re_compile_def
      demo_externals_def demo_haspattern_def non_space_def default_unexpected_def timeout_str_def
      demo_compiles_def)

section \<open>Properties of pattern rewriting\<close>

lemma encode_caret [simp]: "encode (CHR ''^'' # rest) = CHR ''^'' # encode rest"
  by (simp add: encode_def encode_char_def)

lemma encode_char_head_not_caret:
  "char_of (192 + (of_char c :: nat) div 64) \<noteq> CHR ''^''"
proof
  assume "char_of (192 + (of_char c :: nat) div 64) = CHR ''^''"
  then have "(of_char (char_of (192 + (of_char c :: nat) div 64)) :: nat) = of_char (CHR ''^'')"
    by (rule arg_cong)
  moreover have "(of_char (CHR ''^'') :: nat) = 94" by simp
  ultimately have a: "(192 + (of_char c :: nat) div 64) mod 256 = 94"
    by (simp only: of_char_of)
  have "(of_char c :: nat) < 256" by simp
  then have "(of_char c :: nat) div 64 < 4" by (simp add: div_less_iff_less_mult)
  then have "(192 + (of_char c :: nat) div 64) mod 256 = 192 + (of_char c :: nat) div 64"
    by simp
  with a show False by simp
qed

lemma encode_char_not_caret: "c \<noteq> CHR ''^'' \<Longrightarrow> take 1 (encode_char c) \<noteq> ''^''"
  using encode_char_head_not_caret [of c] by (simp add: encode_char_def)

text \<open>
  C8. A pattern source that begins with a caret is rewritten: the caret is replaced by the
  character class of carriage return and line feed, so the pattern matches at a line
  break followed by the rest. A source that does not begin with a caret is passed
  through as it is. \<^verbatim>\<open>Telnet._normalize_pattern\<close> does the same on the encoded source
  of a \<^verbatim>\<open>str\<close>.
\<close>

theorem c8_pattern_rewrite:
  "expect_pattern_rewrite (Some (CHR ''^'' # rest)) = Pat ([CHR ''['', CR, LF, CHR '']''] @ rest)
   \<and> (take 1 p \<noteq> ''^'' \<longrightarrow> expect_pattern_rewrite (Some p) = Pat p)
   \<and> normalize_pattern (Some (TStr (CHR ''^'' # rest))) dflt =
       [Bytes ([CHR ''['', CR, LF, CHR '']''] @ encode rest)]
   \<and> (take 1 p \<noteq> ''^'' \<longrightarrow> normalize_pattern (Some (TStr p)) dflt = [Bytes (encode p)])"
proof (intro conjI impI)
  show "expect_pattern_rewrite (Some (CHR ''^'' # rest)) = Pat ([CHR ''['', CR, LF, CHR '']''] @ rest)"
    by (simp add: expect_pattern_rewrite_def line_break_class_def)
  show "normalize_pattern (Some (TStr (CHR ''^'' # rest))) dflt =
       [Bytes ([CHR ''['', CR, LF, CHR '']''] @ encode rest)]"
    by (simp add: normalize_pattern_def line_break_class_def)
next
  assume "take 1 p \<noteq> ''^''"
  then show "expect_pattern_rewrite (Some p) = Pat p"
    by (cases p) (simp_all add: expect_pattern_rewrite_def)
next
  assume h: "take 1 p \<noteq> ''^''"
  have "sub_leading_caret (encode p) = encode p"
  proof (cases p)
    case Nil
    then show ?thesis by (simp add: encode_def)
  next
    case (Cons c cs)
    with h have "c \<noteq> CHR ''^''" by simp
    then have "take 1 (encode_char c) \<noteq> ''^''" by (rule encode_char_not_caret)
    moreover have "encode_char c \<noteq> []" by (simp add: encode_char_def)
    ultimately show ?thesis
      using Cons by (cases "encode_char c") (simp_all add: encode_def)
  qed
  then show "normalize_pattern (Some (TStr p)) dflt = [Bytes (encode p)]"
    by (simp add: normalize_pattern_def)
qed

theorem c8_pattern_rewrite_witness:
  "take 1 ''login: '' \<noteq> ''^''
   \<and> expect_pattern_rewrite (Some ''^prompt> '') = Pat ([CHR ''['', CR, LF, CHR '']''] @ ''prompt> '')
   \<and> expect_pattern_rewrite (Some ''login: '') = Pat ''login: ''
   \<and> normalize_pattern (Some (TStr ''^prompt> '')) ''login'' =
       [Bytes ([CHR ''['', CR, LF, CHR '']''] @ ''prompt> '')]
   \<and> normalize_pattern (Some (TStr ''login: '')) ''login'' = [Bytes ''login: '']"
  using c8_pattern_rewrite [of "''prompt> ''" "''login: ''" "''login''"]
  by (simp add: encode_def encode_char_def)

section \<open>Properties of the step engine\<close>

lemma normalize_group_nonempty: "g \<noteq> Alts [] \<Longrightarrow> normalize_group g = Inr (group_steps g)"
  by (simp add: normalize_group_def group_steps_def split: group.splits list.splits)

lemma nonempty_groups_nth: "nonempty_groups steps \<Longrightarrow> i < length steps \<Longrightarrow> steps ! i \<noteq> Alts []"
  by (simp add: nonempty_groups_def list_all_length)

lemma child_expect_pending:
  "pending (fst (child_expect c pats)) = tl (pending c)"
  by (simp add: child_expect_def split: list.splits)

lemma child_expect_read: "snd (child_expect c pats) = next_read c"
  by (simp add: child_expect_def next_read_def split: list.splits)


lemma child_expect_eq: "child_expect c pats = (fst (child_expect c pats), next_read c)"
  by (simp add: prod_eq_iff child_expect_read)

lemma search_nonempty:
  assumes "nonempty_groups steps" and "step < length steps"
  shows "search sp steps step (group_steps (steps ! step)) c =
     (fst (child_expect c (search_patterns steps step)),
      case next_read c of
        Found found b \<Rightarrow>
          Inr (found,
               group_steps (steps ! step) @
                 (if step + 1 < length steps then group_steps (steps ! (step + 1)) else []),
               search_patterns steps step)
      | Eof \<Rightarrow> Inl (CollectError (NoMoreData sp))
      | Alarm \<Rightarrow> Inl TimeoutError
      | PexpectTimeout \<Rightarrow> Inl PexpectTIMEOUT)"
proof -
  let ?expects = "group_steps (steps ! step) @
                 (if step + 1 < length steps then group_steps (steps ! (step + 1)) else [])"
  have n: "(if step + 1 < length steps then
              (case normalize_group (steps ! (step + 1)) of
                 Inl e \<Rightarrow> Inl e
               | Inr next_expects \<Rightarrow> Inr (group_steps (steps ! step) @ next_expects))
            else Inr (group_steps (steps ! step))) = Inr ?expects"
    using assms(1) by (simp add: normalize_group_nonempty nonempty_groups_nth)
  have p: "map (\<lambda>e. expect_pattern_rewrite (fst e)) ?expects = search_patterns steps step"
    by (simp add: search_patterns_def)
  show ?thesis
    unfolding search_def n
    by (simp only: sum.case Let_def p, subst child_expect_eq, simp split: read.splits)
qed

lemma respond_goes_on:
  assumes "goes_on tx a"
  shows "snd (respond tx c a) = Go \<and> pending (fst (respond tx c a)) = pending c"
  using assms
  by (cases "(tx, a)" rule: goes_on.cases)
     (auto simp: respond_def child_sendline_def child_send_def split: option.splits)

lemma loop_body_search:
  assumes "nonempty_groups steps" and "step < length steps"
    and "\<not> unconditional (group_steps (steps ! step))"
  shows "loop_body tx sp steps step d c =
     (case search sp steps step (group_steps (steps ! step)) c of
        (c1, sr) \<Rightarrow>
          (case sr of
             Inl e \<Rightarrow> (c1, Return (Inl e))
           | Inr (found, expects, patterns) \<Rightarrow>
               if \<not> found < length expects then (c1, Return (Inl IndexError))
               else
                 (case respond tx c1 (snd (expects ! found)) of
                    (c2, a) \<Rightarrow>
                      (case a of
                         Stop r \<Rightarrow> (c2, Return r)
                       | Break \<Rightarrow> (c2, Return (Inr (PyStr [])))
                       | Go \<Rightarrow>
                           (let nb = length (group_steps (steps ! step));
                                step1 = (if found \<ge> nb then step + 1 else step);
                                detect1 = (if found \<ge> nb then 0 else d)
                            in if found \<ge> nb \<and> step1 + 1 = length steps
                               then (c2, Return (Inr (PyStr [])))
                               else if detect1 + 1 > 10
                               then (c2, Return (Inl (CollectError (TooManyExpect patterns))))
                               else (c2, Next step1 (detect1 + 1)))))))"
proof -
  have "normalize_group (steps ! step) = Inr (group_steps (steps ! step))"
    using assms(1,2) by (simp add: normalize_group_nonempty nonempty_groups_nth)
  moreover have "(length (group_steps (steps ! step)) = 1
                  \<and> fst (group_steps (steps ! step) ! 0) = None) = False"
    using assms(3) by (simp add: unconditional_def)
  ultimately show ?thesis
    unfolding loop_body_def by (simp only: sum.case Let_def if_False)
qed


lemma own_iter:
  assumes "nonempty_groups steps" and "step < length steps"
    and "\<not> unconditional (group_steps (steps ! step))"
    and "next_read c = Found i b" and "i < length (group_steps (steps ! step))"
    and "goes_on tx (snd (group_steps (steps ! step) ! i))"
  shows "loop_body tx sp steps step d c =
     (fst (respond tx (fst (child_expect c (search_patterns steps step)))
             (snd (group_steps (steps ! step) ! i))),
      if d + 1 > 10 then Return (Inl (CollectError (TooManyExpect (search_patterns steps step))))
      else Next step (d + 1))"
proof -
  let ?c1 = "fst (child_expect c (search_patterns steps step))"
  let ?a = "snd (group_steps (steps ! step) ! i)"
  obtain c2 where r: "respond tx ?c1 ?a = (c2, Go)"
    using respond_goes_on [OF assms(6), of ?c1] by (cases "respond tx ?c1 ?a") auto
  show ?thesis
    using assms(5)
    by (simp add: loop_body_search [OF assms(1-3)] search_nonempty [OF assms(1,2)] assms(4)
        nth_append r Let_def)
qed

lemma advance_iter:
  assumes "nonempty_groups steps" and "step + 1 < length steps"
    and "\<not> unconditional (group_steps (steps ! step))"
    and "next_read c = Found j b" and "length (group_steps (steps ! step)) \<le> j"
    and "j < length (group_steps (steps ! step)) + length (group_steps (steps ! (step + 1)))"
    and "goes_on tx (snd ((group_steps (steps ! step) @ group_steps (steps ! (step + 1))) ! j))"
  shows "loop_body tx sp steps step d c =
     (fst (respond tx (fst (child_expect c (search_patterns steps step)))
             (snd ((group_steps (steps ! step) @ group_steps (steps ! (step + 1))) ! j))),
      if step + 2 = length steps then Return (Inr (PyStr [])) else Next (step + 1) 1)"
proof -
  let ?c1 = "fst (child_expect c (search_patterns steps step))"
  let ?a = "snd ((group_steps (steps ! step) @ group_steps (steps ! (step + 1))) ! j)"
  obtain c2 where r: "respond tx ?c1 ?a = (c2, Go)"
    using respond_goes_on [OF assms(7), of ?c1] by (cases "respond tx ?c1 ?a") auto
  have lt: "step < length steps" using assms(2) by simp
  show ?thesis
    using assms(2,5,6) r
    by (simp add: loop_body_search [OF assms(1) lt assms(3)] search_nonempty [OF assms(1) lt]
        assms(4) Let_def)
qed

lemma respond_pending:
  "goes_on tx a \<Longrightarrow> pending (fst (respond tx c a)) = pending c"
  by (simp add: respond_goes_on)

lemma next_read_Cons: "pending c = r # rs \<Longrightarrow> next_read c = r"
  by (simp add: next_read_def)

lemma own_matchD:
  assumes "own_match tx steps step r"
  obtains i b where "r = Found i b" and "i < length (group_steps (steps ! step))"
    and "goes_on tx (snd (group_steps (steps ! step) ! i))"
  using assms by (cases r) (auto simp: own_match_def)

lemma stuck_loop:
  assumes "nonempty_groups steps" and "step < length steps"
    and "\<not> unconditional (group_steps (steps ! step))"
  shows "list_all (own_match tx steps step) ms \<Longrightarrow> pending c = ms @ rest \<Longrightarrow>
         ms \<noteq> [] \<Longrightarrow> d + length ms = 11 \<Longrightarrow>
         snd (expect_steps_loop tx sp steps step d c) =
           Inl (CollectError (TooManyExpect (search_patterns steps step)))
         \<and> pending (fst (expect_steps_loop tx sp steps step d c)) = rest"
proof (induction ms arbitrary: c d)
  case Nil
  then show ?case by simp
next
  case (Cons m ms)
  from Cons.prems(1) have "own_match tx steps step m" by simp
  then obtain i b where m: "m = Found i b" and i: "i < length (group_steps (steps ! step))"
    and g: "goes_on tx (snd (group_steps (steps ! step) ! i))"
    by (rule own_matchD)
  let ?c1 = "fst (child_expect c (search_patterns steps step))"
  let ?c2 = "fst (respond tx ?c1 (snd (group_steps (steps ! step) ! i)))"
  have nr: "next_read c = Found i b"
    using Cons.prems(2) m by (simp add: next_read_def)
  have body: "loop_body tx sp steps step d c =
     (?c2, if d + 1 > 10 then Return (Inl (CollectError (TooManyExpect (search_patterns steps step))))
           else Next step (d + 1))"
    by (rule own_iter [OF assms nr i g])
  have p2: "pending ?c2 = ms @ rest"
    using Cons.prems(2) by (simp add: respond_pending [OF g] child_expect_pending)
  show ?case
  proof (cases "ms = []")
    case True
    with Cons.prems(4) have "d = 10" by simp
    with body p2 True assms(2) show ?thesis
      by (subst (1 2) expect_steps_loop.simps) simp
  next
    case False
    then obtain x xs where "ms = x # xs" by (cases ms) auto
    with Cons.prems(4) have d: "\<not> d + 1 > 10" and d': "(d + 1) + length ms = 11" by simp_all
    from Cons.prems(1) have all: "list_all (own_match tx steps step) ms" by simp
    have "expect_steps_loop tx sp steps step d c = expect_steps_loop tx sp steps step (d + 1) ?c2"
      using body d assms(2) by (subst expect_steps_loop.simps) simp
    with Cons.IH [OF all p2 False d'] show ?thesis by simp
  qed
qed


lemma send_cmd_next_read [simp]: "next_read (send_cmd c cmd) = next_read c"
  by (simp add: next_read_def send_cmd_def child_sendline_def)

lemma send_cmd_pending [simp]: "pending (send_cmd c cmd) = pending c"
  by (simp add: send_cmd_def child_sendline_def)




text \<open>The equations that evaluate the engine on an example.\<close>

lemmas engine_eval =
  expect_steps_def expect_steps_loop.simps loop_body_def search_def respond_def
  normalize_group_def expect_pattern_rewrite_def child_expect_def child_sendline_def
  child_send_def child_kill_def fresh_child_def demo_externals_def Let_def
  KILL_def BREAK_def RESPONSE_def

text \<open>
  C3 against the code. With the sequence \<^verbatim>\<open>(((None, 'hello\n'),), ('[$] ', None))\<close> the
  first group is one step whose pattern is \<^verbatim>\<open>None\<close>. The engine does not read (the script
  \<open>rs\<close> of the child is left as it is) and it sends the answer, but \<^verbatim>\<open>found = 0\<close> is not
  \<^verbatim>\<open>>= nb_base_expects\<close>, so the cursor stays on the group: the answer is sent eleven times
  and \<^verbatim>\<open>CollectError('Too many expect for []')\<close> is raised.
\<close>

theorem c3_unconditional_group_never_advances:
  "expect_steps demo_externals ''sp'' hello_steps (fresh_child rs) =
     (\<lparr>pending = rs, before = PyNone, ops = replicate 11 (Sendline ''hello'')\<rparr>,
      Inl (CollectError (TooManyExpect [])))"
  by (simp add: engine_eval hello_steps_def LF_def eval_nat_numeral)

text \<open>
  C4 against the code. The child reports \<^verbatim>\<open>before\<close> as \<^verbatim>\<open>bytes\<close>, so for the answers
  \<^verbatim>\<open>Expect.KILL\<close> and \<^verbatim>\<open>Expect.RESPONSE\<close> the expression \<^verbatim>\<open>self.child.before + '.'\<close> raises
  \<^verbatim>\<open>TypeError\<close>: nothing is returned and, for \<^verbatim>\<open>KILL\<close>, \<^verbatim>\<open>self.child.kill(0)\<close> is not
  reached. \<^verbatim>\<open>Expect.BREAK\<close> ends the engine with the value \<^verbatim>\<open>''\<close>.
\<close>

theorem c4_kill_and_response_raise_type_error:
  "expect_steps demo_externals ''sp'' (control_steps KILL)
     (fresh_child [Found 0 (PyBytes ''Permission '')]) =
     (\<lparr>pending = [], before = PyBytes ''Permission '',
        ops = [Expect [Pat ''denied'', Pat ''Password: '', Pat ''[$] '']]\<rparr>,
      Inl TypeError)
   \<and> expect_steps demo_externals ''sp'' (control_steps RESPONSE)
     (fresh_child [Found 0 (PyBytes ''Permission '')]) =
     (\<lparr>pending = [], before = PyBytes ''Permission '',
        ops = [Expect [Pat ''denied'', Pat ''Password: '', Pat ''[$] '']]\<rparr>,
      Inl TypeError)
   \<and> expect_steps demo_externals ''sp'' (control_steps BREAK)
     (fresh_child [Found 0 (PyBytes ''Permission '')]) =
     (\<lparr>pending = [], before = PyBytes ''Permission '',
        ops = [Expect [Pat ''denied'', Pat ''Password: '', Pat ''[$] '']]\<rparr>,
      Inr (PyStr []))"
  by (simp add: engine_eval control_steps_def)

text \<open>
  C2, as stated, fails on a step the cursor has advanced to. With the sequence
  \<^verbatim>\<open>(('A', 'a\n'), ('B', 'b\n'), ('C', None))\<close>, a first read that matches \<^verbatim>\<open>B\<close> moves the
  cursor to the second group, and \<^verbatim>\<open>CollectError('Too many expect ...')\<close> is raised at
  the tenth match of \<^verbatim>\<open>B\<close> read with the cursor on that group (the reads with the
  patterns \<^verbatim>\<open>B\<close>, \<^verbatim>\<open>C\<close>), not at the eleventh.
\<close>

theorem c2_ten_matches_after_advance:
  "snd (expect_steps demo_externals ''sp'' abc_steps
          (fresh_child (Found 1 (PyBytes []) # replicate 10 (Found 0 (PyBytes []))))) =
     Inl (CollectError (TooManyExpect [Pat ''B'', Pat ''C'']))
   \<and> count_expects [Pat ''A'', Pat ''B'']
        (fst (expect_steps demo_externals ''sp'' abc_steps
          (fresh_child (Found 1 (PyBytes []) # replicate 10 (Found 0 (PyBytes [])))))) = 1
   \<and> count_expects [Pat ''B'', Pat ''C'']
        (fst (expect_steps demo_externals ''sp'' abc_steps
          (fresh_child (Found 1 (PyBytes []) # replicate 10 (Found 0 (PyBytes [])))))) = 10"
  by (simp add: engine_eval abc_steps_def LF_def count_expects_def eval_nat_numeral)

lemma lookahead_matchD:
  assumes "lookahead_match tx steps step r"
  obtains j b where "r = Found j b" and "length (group_steps (steps ! step)) \<le> j"
    and "j < length (group_steps (steps ! step)) + length (group_steps (steps ! (step + 1)))"
    and "goes_on tx (snd ((group_steps (steps ! step) @ group_steps (steps ! (step + 1))) ! j))"
  using assms by (cases r) (auto simp: lookahead_match_def)

lemma advance_then_stuck:
  assumes ne: "nonempty_groups steps" and lt: "step + 2 < length steps"
    and u0: "\<not> unconditional (group_steps (steps ! step))"
    and u1: "\<not> unconditional (group_steps (steps ! (step + 1)))"
    and m: "lookahead_match tx steps step m"
    and ms: "list_all (own_match tx steps (step + 1)) ms" and len: "length ms = 10"
    and p: "pending c = m # ms @ rest"
  shows "snd (expect_steps_loop tx sp steps step d c) =
           Inl (CollectError (TooManyExpect (search_patterns steps (step + 1))))
         \<and> pending (fst (expect_steps_loop tx sp steps step d c)) = rest"
proof -
  from m obtain j b where r: "m = Found j b"
    and j1: "length (group_steps (steps ! step)) \<le> j"
    and j2: "j < length (group_steps (steps ! step)) + length (group_steps (steps ! (step + 1)))"
    and g: "goes_on tx (snd ((group_steps (steps ! step) @ group_steps (steps ! (step + 1))) ! j))"
    by (rule lookahead_matchD)
  let ?a = "snd ((group_steps (steps ! step) @ group_steps (steps ! (step + 1))) ! j)"
  let ?c2 = "fst (respond tx (fst (child_expect c (search_patterns steps step))) ?a)"
  have lt1: "step + 1 < length steps" and lt0: "step < length steps"
    and nl: "step + 2 \<noteq> length steps"
    using lt by simp_all
  have nr: "next_read c = Found j b" using p r by (simp add: next_read_def)
  have body: "loop_body tx sp steps step d c = (?c2, Next (step + 1) 1)"
    using advance_iter [OF ne lt1 u0 nr j1 j2 g, of sp d] nl by simp
  have "pending ?c2 = pending (fst (child_expect c (search_patterns steps step)))"
    by (rule respond_pending [OF g])
  then have p2: "pending ?c2 = ms @ rest"
    using p by (simp add: child_expect_pending)
  have n: "ms \<noteq> []" using len by auto
  have "expect_steps_loop tx sp steps step d c = expect_steps_loop tx sp steps (step + 1) 1 ?c2"
    using body lt0 by (subst expect_steps_loop.simps) simp
  moreover have "1 + length ms = 11" using len by simp
  ultimately show ?thesis
    using stuck_loop [OF ne lt1 u1 ms p2 n, of 1 sp] by simp
qed

text \<open>
  C2, amended. Where every read matches one of the own patterns of the group under the
  cursor, with answers that are sent (no control value), \<^verbatim>\<open>_expect_steps\<close> raises
  \<^verbatim>\<open>CollectError('Too many expect ...')\<close>
  \<^item> at the eleventh match, when the group is the first of the sequence: of the reads
    \<open>ms @ rest\<close> exactly the eleven of \<open>ms\<close> are made;
  \<^item> at the tenth match with the cursor on the group, when the cursor has advanced to it
    (\<^verbatim>\<open>infinite_loop_detect\<close> is set to 0 and incremented in the iteration that
    advances): of the reads \<open>m # ms' @ rest'\<close>, the read \<open>m\<close> advances the cursor and
    exactly the ten of \<open>ms'\<close> follow.
\<close>

theorem c2_too_many_expect:
  assumes "nonempty_groups steps"
  shows
   "(0 < length steps \<and> \<not> unconditional (group_steps (steps ! 0))
       \<and> list_all (own_match tx steps 0) ms \<and> length ms = 11 \<and> pending c = ms @ rest \<longrightarrow>
       snd (expect_steps tx sp steps c) =
         Inl (CollectError (TooManyExpect (search_patterns steps 0)))
       \<and> pending (fst (expect_steps tx sp steps c)) = rest)
    \<and> (step + 2 < length steps \<and> \<not> unconditional (group_steps (steps ! step))
       \<and> \<not> unconditional (group_steps (steps ! (step + 1)))
       \<and> lookahead_match tx steps step m
       \<and> list_all (own_match tx steps (step + 1)) ms' \<and> length ms' = 10
       \<and> pending c' = m # ms' @ rest' \<longrightarrow>
       snd (expect_steps_loop tx sp steps step d c') =
         Inl (CollectError (TooManyExpect (search_patterns steps (step + 1))))
       \<and> pending (fst (expect_steps_loop tx sp steps step d c')) = rest')"
proof (intro conjI impI)
  assume h: "0 < length steps \<and> \<not> unconditional (group_steps (steps ! 0))
       \<and> list_all (own_match tx steps 0) ms \<and> length ms = 11 \<and> pending c = ms @ rest"
  then have n: "ms \<noteq> []" and l: "0 + length ms = 11" by auto
  from h have "snd (expect_steps_loop tx sp steps 0 0 c) =
         Inl (CollectError (TooManyExpect (search_patterns steps 0)))
       \<and> pending (fst (expect_steps_loop tx sp steps 0 0 c)) = rest"
    by (intro stuck_loop [OF assms _ _ _ _ n l]) simp_all
  then show "snd (expect_steps tx sp steps c) =
         Inl (CollectError (TooManyExpect (search_patterns steps 0)))"
    and "pending (fst (expect_steps tx sp steps c)) = rest"
    by (simp_all add: expect_steps_def)
next
  assume h: "step + 2 < length steps \<and> \<not> unconditional (group_steps (steps ! step))
       \<and> \<not> unconditional (group_steps (steps ! (step + 1)))
       \<and> lookahead_match tx steps step m
       \<and> list_all (own_match tx steps (step + 1)) ms' \<and> length ms' = 10
       \<and> pending c' = m # ms' @ rest'"
  then have "snd (expect_steps_loop tx sp steps step d c') =
         Inl (CollectError (TooManyExpect (search_patterns steps (step + 1))))
       \<and> pending (fst (expect_steps_loop tx sp steps step d c')) = rest'"
    by (intro advance_then_stuck [OF assms]) simp_all
  then show "snd (expect_steps_loop tx sp steps step d c') =
         Inl (CollectError (TooManyExpect (search_patterns steps (step + 1))))"
    and "pending (fst (expect_steps_loop tx sp steps step d c')) = rest'"
    by simp_all
qed

theorem c2_too_many_expect_witness:
  "nonempty_groups abc_steps
   \<and> 0 < length abc_steps \<and> \<not> unconditional (group_steps (abc_steps ! 0))
   \<and> list_all (own_match demo_externals abc_steps 0) (replicate 11 (Found 0 (PyBytes [])))
   \<and> snd (expect_steps demo_externals ''sp'' abc_steps
             (fresh_child (replicate 11 (Found 0 (PyBytes [])) @ [Eof]))) =
       Inl (CollectError (TooManyExpect [Pat ''A'', Pat ''B'']))
   \<and> pending (fst (expect_steps demo_externals ''sp'' abc_steps
             (fresh_child (replicate 11 (Found 0 (PyBytes [])) @ [Eof])))) = [Eof]
   \<and> 0 + 2 < length abc_steps \<and> \<not> unconditional (group_steps (abc_steps ! (0 + 1)))
   \<and> lookahead_match demo_externals abc_steps 0 (Found 1 (PyBytes []))
   \<and> list_all (own_match demo_externals abc_steps (0 + 1)) (replicate 10 (Found 0 (PyBytes [])))
   \<and> snd (expect_steps_loop demo_externals ''sp'' abc_steps 0 0
             (fresh_child (Found 1 (PyBytes []) # replicate 10 (Found 0 (PyBytes [])) @ [Eof]))) =
       Inl (CollectError (TooManyExpect [Pat ''B'', Pat ''C'']))
   \<and> pending (fst (expect_steps_loop demo_externals ''sp'' abc_steps 0 0
             (fresh_child (Found 1 (PyBytes []) # replicate 10 (Found 0 (PyBytes [])) @ [Eof]))))
       = [Eof]"
proof -
  have a: "nonempty_groups abc_steps" by (simp add: nonempty_groups_def abc_steps_def)
  have g: "group_steps (abc_steps ! 0) = [(Some ''A'', Some (Text (''a'' @ [LF])))]"
    "group_steps (abc_steps ! Suc 0) = [(Some ''B'', Some (Text (''b'' @ [LF])))]"
    "length abc_steps = 3"
    by (simp_all add: abc_steps_def group_steps_def)
  have u: "\<not> unconditional (group_steps (abc_steps ! 0))"
    "\<not> unconditional (group_steps (abc_steps ! (0 + 1)))"
    by (simp_all add: g unconditional_def)
  have f: "format_ctx demo_externals = Some" by (simp add: demo_externals_def)
  have o: "own_match demo_externals abc_steps 0 (Found 0 (PyBytes []))"
    "own_match demo_externals abc_steps (0 + 1) (Found 0 (PyBytes []))"
    by (simp_all add: own_match_def g f)
  have l: "lookahead_match demo_externals abc_steps 0 (Found 1 (PyBytes []))"
    by (simp add: lookahead_match_def g f)
  have la: "list_all (own_match demo_externals abc_steps 0) (replicate 11 (Found 0 (PyBytes [])))"
    "list_all (own_match demo_externals abc_steps (0 + 1)) (replicate 10 (Found 0 (PyBytes [])))"
    using o by (simp_all add: list_all_iff)
  have s: "search_patterns abc_steps 0 = [Pat ''A'', Pat ''B'']"
    "search_patterns abc_steps (0 + 1) = [Pat ''B'', Pat ''C'']"
    by (simp_all add: search_patterns_def abc_steps_def group_steps_def
        expect_pattern_rewrite_def)
  show ?thesis
    using c2_too_many_expect [OF a, where tx = demo_externals and sp = "''sp''"
            and ms = "replicate 11 (Found 0 (PyBytes []))" and rest = "[Eof]"
            and c = "fresh_child (replicate 11 (Found 0 (PyBytes [])) @ [Eof])"
            and step = 0 and m = "Found 1 (PyBytes [])"
            and ms' = "replicate 10 (Found 0 (PyBytes []))" and rest' = "[Eof]"
            and c' = "fresh_child (Found 1 (PyBytes []) # replicate 10 (Found 0 (PyBytes [])) @ [Eof])"
            and d = 0]
          a u la l s
    by (simp add: g fresh_child_def)
qed

section \<open>Properties of the session\<close>

lemma run_cmd_alarm:
  assumes "next_read (child s) = Alarm"
  shows "snd (run_cmd tx s cmd) = Inl TimeoutError"
  unfolding run_cmd_def
  by (subst child_expect_eq) (simp add: assms)

lemma filter_result_no_filter:
  "filter_result tx t k cmd ep up None =
     (case unexpected_check tx t k cmd up of
        Some e \<Rightarrow> Inl e
      | None \<Rightarrow> (case expected_check tx t k cmd ep of Some e \<Rightarrow> Inl e | None \<Rightarrow> Inr t))"
  by (simp add: filter_result_def apply_filter_def)

lemma mrun_loop_timeout:
  assumes "run_cmd tx s cmd = (s1, Inl TimeoutError)" and "k \<noteq> []"
  shows "mrun_loop tx s ((k, cmd) # cmds) ep up ff dct =
     (case filter_result tx timeout_str k cmd ep up ff of
        Inl e \<Rightarrow> (s1, Inl e)
      | Inr v \<Rightarrow> mrun_loop tx s1 cmds ep up ff (AList.update k v dct))"
  by (simp add: mrun_loop.simps assms)

lemma timeout_str_nonempty [simp]: "timeout_str \<noteq> []"
  by (simp add: timeout_str_def)

lemma run_cmd_pexpect_timeout:
  assumes "next_read (child s) = PexpectTimeout"
  shows "snd (run_cmd tx s cmd) = Inl PexpectTIMEOUT"
  unfolding run_cmd_def
  by (subst child_expect_eq) (simp add: assms)

text \<open>
  An exception of \<^verbatim>\<open>_run_cmd\<close> other than \<^verbatim>\<open>tools.TimeoutError\<close> leaves the loop of
  \<^verbatim>\<open>mrun\<close>: the commands that remain are not run and nothing is stored.
\<close>

lemma mrun_loop_raise:
  assumes "run_cmd tx s cmd = (s1, Inl e)" and "e \<noteq> TimeoutError"
  shows "mrun_loop tx s ((k, cmd) # cmds) ep up ff dct = (s1, Inl e)"
  by (simp add: mrun_loop.simps assms)

text \<open>
  C1, amended. In the loop of \<^verbatim>\<open>mrun\<close>, for the command of a key \<open>k\<close> (not empty) and
  with no transform:
  \<^item> when the alarm of the per-command timeout goes off while the prompt is awaited
    (\<^verbatim>\<open>tools.TimeoutError\<close>), and the unexpected pattern in force is off or does not
    match \<^verbatim>\<open><timeout>\<close>, and the expected pattern is off or matches it, then
    \<^verbatim>\<open><timeout>\<close> is stored for \<open>k\<close> and the loop goes on with the commands that remain;
  \<^item> when the alarm goes off and the unexpected pattern in force is the default
    \<^verbatim>\<open><timeout>\<close>, which compiles and which the matcher finds in that text, then
    \<^verbatim>\<open>UnexpectedResultError\<close> is raised and the commands that remain are not run;
  \<^item> when the wait for the prompt is ended by the timeout of the child itself
    (\<^verbatim>\<open>pexpect.TIMEOUT\<close>, which \<^verbatim>\<open>mrun\<close> does not catch), that exception is raised,
    nothing is stored for \<open>k\<close> and the commands that remain are not run, whatever the
    patterns.
\<close>

theorem c1_timeout_in_batch:
  "(next_read (child s) = Alarm \<and> k \<noteq> []
    \<and> unexpected_check tx timeout_str k cmd up = None
    \<and> expected_check tx timeout_str k cmd ep = None \<longrightarrow>
      mrun_loop tx s ((k, cmd) # cmds) ep up None dct =
        mrun_loop tx (fst (run_cmd tx s cmd)) cmds ep up None
          (AList.update k timeout_str dct))
   \<and> (next_read (child s) = Alarm \<and> k \<noteq> []
      \<and> compiles tx timeout_str \<and> haspattern tx (re_compile timeout_str) timeout_str \<longrightarrow>
      mrun_loop tx s ((k, cmd) # cmds) ep default_unexpected None dct =
        (fst (run_cmd tx s cmd),
         Inl (raise_unexpected_result timeout_str k cmd
                (''-> found the pattern \"<timeout>\" :'' @ [LF, LF] @
                 findhighlight tx (re_compile timeout_str) timeout_str))))
   \<and> (next_read (child s) = PexpectTimeout \<longrightarrow>
      mrun_loop tx s ((k, cmd) # cmds) ep up ff dct =
        (fst (run_cmd tx s cmd), Inl PexpectTIMEOUT))"
proof (intro conjI impI)
  assume h: "next_read (child s) = Alarm \<and> k \<noteq> []
    \<and> unexpected_check tx timeout_str k cmd up = None
    \<and> expected_check tx timeout_str k cmd ep = None"
  have "run_cmd tx s cmd = (fst (run_cmd tx s cmd), Inl TimeoutError)"
    using run_cmd_alarm [of s tx cmd] h by (simp add: prod_eq_iff)
  from mrun_loop_timeout [OF this] h
  show "mrun_loop tx s ((k, cmd) # cmds) ep up None dct =
        mrun_loop tx (fst (run_cmd tx s cmd)) cmds ep up None
          (AList.update k timeout_str dct)"
    by (simp add: filter_result_no_filter)
next
  assume h: "next_read (child s) = Alarm \<and> k \<noteq> []
      \<and> compiles tx timeout_str \<and> haspattern tx (re_compile timeout_str) timeout_str"
  have r: "run_cmd tx s cmd = (fst (run_cmd tx s cmd), Inl TimeoutError)"
    using run_cmd_alarm [of s tx cmd] h by (simp add: prod_eq_iff)
  have "unexpected_check tx timeout_str k cmd default_unexpected =
          Some (raise_unexpected_result timeout_str k cmd
                 (''-> found the pattern \"<timeout>\" :'' @ [LF, LF] @
                  findhighlight tx (re_compile timeout_str) timeout_str))"
    using h by (simp add: unexpected_check_def default_unexpected_def re_compile_def)
               (simp add: timeout_str_def)
  with mrun_loop_timeout [OF r] h
  show "mrun_loop tx s ((k, cmd) # cmds) ep default_unexpected None dct =
        (fst (run_cmd tx s cmd),
         Inl (raise_unexpected_result timeout_str k cmd
                (''-> found the pattern \"<timeout>\" :'' @ [LF, LF] @
                 findhighlight tx (re_compile timeout_str) timeout_str)))"
    by (simp add: filter_result_no_filter)
next
  assume h: "next_read (child s) = PexpectTimeout"
  have "run_cmd tx s cmd = (fst (run_cmd tx s cmd), Inl PexpectTIMEOUT)"
    using run_cmd_pexpect_timeout [OF h, of tx cmd] by (simp add: prod_eq_iff)
  from mrun_loop_raise [OF this]
  show "mrun_loop tx s ((k, cmd) # cmds) ep up ff dct =
        (fst (run_cmd tx s cmd), Inl PexpectTIMEOUT)"
    by simp
qed

lemmas session_eval =
  run_def mrun_def mrun_loop.simps run_cmd_def send_cmd_def close_def
  filter_result_def apply_filter_def unexpected_check_def expected_check_def
  raise_unexpected_result_def splitlines_def py_str_def re_compile_def
  or_object_level_def default_expected_def default_unexpected_def timeout_str_def
  non_space_def demo_session_def demo_externals_def demo_haspattern_def
  demo_rm_cmd_sub_def rstrip_crlf_def is_space_def expect_pattern_rewrite_def
  child_expect_def child_sendline_def child_kill_def fresh_child_def next_read_def
  demo_cmds_def demo_reads_def not_connected_def LF_def CR_def
  rm_cmd_source_def demo_compiles_def demo_findhighlight_def

theorem c1_timeout_in_batch_witness:
  "next_read (child (demo_session [Alarm, Found 0 (PyBytes ''3'')])) = Alarm
   \<and> ''b'' \<noteq> []
   \<and> unexpected_check demo_externals timeout_str ''b'' (Some ''sleep 100'') None = None
   \<and> expected_check demo_externals timeout_str ''b'' (Some ''sleep 100'') default_expected = None
   \<and> compiles demo_externals timeout_str
   \<and> haspattern demo_externals (re_compile timeout_str) timeout_str
   \<and> next_read (child (demo_session [PexpectTimeout, Found 0 (PyBytes ''3'')])) = PexpectTimeout
   \<and> snd (mrun_loop demo_externals (demo_session [Alarm, Found 0 (PyBytes ''3'')])
             [(''b'', Some ''sleep 100''), (''c'', Some ''echo 3'')]
             default_expected None None [(''a'', ''1'')]) =
       Inr [(''a'', ''1''), (''b'', ''<timeout>''), (''c'', ''3'')]
   \<and> snd (mrun_loop demo_externals (demo_session [Alarm, Found 0 (PyBytes ''3'')])
             [(''b'', Some ''sleep 100''), (''c'', Some ''echo 3'')]
             default_expected default_unexpected None [(''a'', ''1'')]) =
       Inl (raise_unexpected_result ''<timeout>'' ''b'' (Some ''sleep 100'')
              (''-> found the pattern \"<timeout>\" :'' @ [LF, LF] @ '' 1 -> >>><timeout><<<''))
   \<and> snd (mrun_loop demo_externals (demo_session [PexpectTimeout, Found 0 (PyBytes ''3'')])
             [(''b'', Some ''sleep 100''), (''c'', Some ''echo 3'')]
             default_expected None None [(''a'', ''1'')]) = Inl PexpectTIMEOUT
   \<and> snd (mrun demo_externals (demo_session demo_reads) demo_cmds True Zero (Given None) Zero) =
       Inr [(''a'', ''1''), (''b'', ''<timeout>''), (''c'', ''3'')]"
  using c1_timeout_in_batch [where s = "demo_session [Alarm, Found 0 (PyBytes ''3'')]"
          and tx = demo_externals and k = "''b''" and cmd = "Some ''sleep 100''"
          and up = None and ep = default_expected and cmds = "[(''c'', Some ''echo 3'')]"
          and dct = "[(''a'', ''1'')]"]
        c1_timeout_in_batch [where s = "demo_session [PexpectTimeout, Found 0 (PyBytes ''3'')]"
          and tx = demo_externals and k = "''b''" and cmd = "Some ''sleep 100''"
          and up = None and ep = default_expected and cmds = "[(''c'', Some ''echo 3'')]"
          and ff = None and dct = "[(''a'', ''1'')]"]
  by (simp add: session_eval)

text \<open>
  C1, as stated, fails with the default patterns of the object: the unexpected pattern
  \<^verbatim>\<open><timeout>\<close> matches the text \<^verbatim>\<open><timeout>\<close> that stands for the output of the command
  that timed out. \<^verbatim>\<open>mrun\<close> raises \<^verbatim>\<open>UnexpectedResultError\<close> for the key \<^verbatim>\<open>b\<close>, returns no
  dictionary, and the command of the key \<^verbatim>\<open>c\<close> is never sent.
\<close>

theorem c1_default_patterns_abort_batch:
  "snd (mrun demo_externals (demo_session demo_reads) demo_cmds True Zero Zero Zero) =
     Inl (raise_unexpected_result ''<timeout>'' ''b'' (Some ''sleep 100'')
            (''-> found the pattern \"<timeout>\" :'' @ [LF, LF] @ '' 1 -> >>><timeout><<<''))
   \<and> ops (child (fst (mrun demo_externals (demo_session demo_reads) demo_cmds True
                        Zero Zero Zero))) =
       [Sendline ''echo 1'', Expect [Pat ''www@[^$]*[$] ''],
        Sendline ''sleep 100'', Expect [Pat ''www@[^$]*[$] '']]"
  by (simp add: session_eval)

lemma run_cmd_attrs:
  "is_connected (fst (run_cmd tx s cmd)) = is_connected s
   \<and> in_with (fst (run_cmd tx s cmd)) = in_with s"
  by (simp add: run_cmd_def split: prod.splits read.splits)

lemma mrun_loop_attrs:
  "is_connected (fst (mrun_loop tx s cmds ep up ff dct)) = is_connected s
   \<and> in_with (fst (mrun_loop tx s cmds ep up ff dct)) = in_with s"
proof (induction cmds arbitrary: s dct)
  case Nil
  then show ?case by (simp add: mrun_loop.simps)
next
  case (Cons kc cmds)
  obtain k cmd where kc: "kc = (k, cmd)" by (cases kc)
  obtain s1 r where r: "run_cmd tx s cmd = (s1, r)" by (cases "run_cmd tx s cmd")
  then have s1: "is_connected s1 = is_connected s" "in_with s1 = in_with s"
    using run_cmd_attrs [of tx s cmd] by simp_all
  show ?case
    unfolding kc
    by (subst (1 2) mrun_loop.simps)
       (simp add: r s1 Cons.IH split: sum.splits)
qed

lemma close_closes:
  "\<not> in_with s \<Longrightarrow> \<not> is_connected (fst (close tx s))"
  by (simp add: close_def Let_def split: prod.splits sum.splits)

lemma close_in_with: "in_with s \<Longrightarrow> close tx s = (s, Inr ())"
  by (simp add: close_def)

lemma run_not_connected:
  "\<not> is_connected s \<Longrightarrow> run tx s cmd ac ep up ff = (s, Inl not_connected)"
  by (simp add: run_def)

lemma mrun_not_connected:
  "\<not> is_connected s \<Longrightarrow> mrun tx s cmds ac ep up ff = (s, Inl not_connected)"
  by (simp add: mrun_def)

lemma run_returns:
  assumes "run tx s cmd ac ep up ff = (s', Inr out)"
  shows "is_connected s \<and> (\<exists>s1. is_connected s1 = is_connected s \<and> in_with s1 = in_with s
            \<and> (if ac then s' = fst (close tx s1) else s' = s1))"
proof -
  have c: "is_connected s" using assms by (auto simp: run_def split: if_splits)
  obtain s1 r where r: "run_cmd tx s cmd = (s1, r)" by (cases "run_cmd tx s cmd")
  then have s1: "is_connected s1 = is_connected s" "in_with s1 = in_with s"
    using run_cmd_attrs [of tx s cmd] by simp_all
  have "if ac then s' = fst (close tx s1) else s' = s1"
    using assms c r by (auto simp: run_def split: sum.splits prod.splits if_splits)
  with c s1 show ?thesis by blast
qed

lemma mrun_returns:
  assumes "mrun tx s cmds ac ep up ff = (s', Inr dct)"
  shows "is_connected s \<and> (\<exists>s1. is_connected s1 = is_connected s \<and> in_with s1 = in_with s
            \<and> (if ac then s' = fst (close tx s1) else s' = s1))"
proof -
  have c: "is_connected s" using assms by (auto simp: mrun_def split: if_splits)
  let ?l = "mrun_loop tx s cmds (or_object_level ep (expected_pattern s))
              (or_object_level up (unexpected_pattern s)) (or_object_level ff (filter_attr s)) []"
  obtain s1 r where r: "?l = (s1, r)" by (cases ?l)
  then have s1: "is_connected s1 = is_connected s" "in_with s1 = in_with s"
    using mrun_loop_attrs [of tx s cmds _ _ _ "[]"] by (metis fst_conv)+
  have "if ac then s' = fst (close tx s1) else s' = s1"
    using assms c r by (auto simp: mrun_def split: sum.splits prod.splits if_splits)
  with c s1 show ?thesis by blast
qed

text \<open>
  C9. \<^verbatim>\<open>run\<close> and \<^verbatim>\<open>mrun\<close> on a session that is not connected raise \<^verbatim>\<open>NotConnected\<close> and
  leave the session as it is. Outside a \<^verbatim>\<open>with\<close> block and with \<^verbatim>\<open>auto_close\<close> set, a call
  of \<^verbatim>\<open>run\<close> or \<^verbatim>\<open>mrun\<close> that returns leaves the session not connected, so that any
  further \<^verbatim>\<open>run\<close> or \<^verbatim>\<open>mrun\<close> on it raises \<^verbatim>\<open>NotConnected\<close>. Inside a \<^verbatim>\<open>with\<close> block, or
  with \<^verbatim>\<open>auto_close\<close> off, a call that returns leaves the session connected; leaving the
  \<^verbatim>\<open>with\<close> block closes it.
\<close>

theorem c9_session_state:
  "(\<not> is_connected s \<longrightarrow>
      run tx s cmd ac ep up ff = (s, Inl not_connected)
      \<and> mrun tx s cmds ac ep up ff = (s, Inl not_connected))
   \<and> (\<not> in_with s \<and> run tx s cmd True ep up ff = (sa, Inr out) \<longrightarrow>
      \<not> is_connected sa
      \<and> run tx sa cmd' ac' ep' up' ff' = (sa, Inl not_connected)
      \<and> mrun tx sa cmds' ac' ep' up' ff' = (sa, Inl not_connected))
   \<and> (\<not> in_with s \<and> mrun tx s cmds True ep up ff = (sb, Inr dct) \<longrightarrow>
      \<not> is_connected sb
      \<and> run tx sb cmd' ac' ep' up' ff' = (sb, Inl not_connected)
      \<and> mrun tx sb cmds' ac' ep' up' ff' = (sb, Inl not_connected))
   \<and> ((in_with s \<or> \<not> ac) \<and> run tx s cmd ac ep up ff = (sc, Inr outc) \<longrightarrow> is_connected sc)
   \<and> ((in_with s \<or> \<not> ac) \<and> mrun tx s cmds ac ep up ff = (sd, Inr dctd) \<longrightarrow> is_connected sd)
   \<and> \<not> is_connected (fst (exit tx s))"
proof (intro conjI impI)
  assume "\<not> is_connected s"
  then show "run tx s cmd ac ep up ff = (s, Inl not_connected)"
    and "mrun tx s cmds ac ep up ff = (s, Inl not_connected)"
    by (simp_all add: run_not_connected mrun_not_connected)
next
  assume h: "\<not> in_with s \<and> run tx s cmd True ep up ff = (sa, Inr out)"
  then obtain t where "in_with t = in_with s" and "sa = fst (close tx t)"
    using run_returns [of tx s cmd True ep up ff sa out] by auto
  with h show c: "\<not> is_connected sa" by (simp add: close_closes)
  then show "run tx sa cmd' ac' ep' up' ff' = (sa, Inl not_connected)"
    and "mrun tx sa cmds' ac' ep' up' ff' = (sa, Inl not_connected)"
    by (simp_all add: run_not_connected mrun_not_connected)
next
  assume h: "\<not> in_with s \<and> mrun tx s cmds True ep up ff = (sb, Inr dct)"
  then obtain t where "in_with t = in_with s" and "sb = fst (close tx t)"
    using mrun_returns [of tx s cmds True ep up ff sb dct] by auto
  with h show c: "\<not> is_connected sb" by (simp add: close_closes)
  then show "run tx sb cmd' ac' ep' up' ff' = (sb, Inl not_connected)"
    and "mrun tx sb cmds' ac' ep' up' ff' = (sb, Inl not_connected)"
    by (simp_all add: run_not_connected mrun_not_connected)
next
  assume h: "(in_with s \<or> \<not> ac) \<and> run tx s cmd ac ep up ff = (sc, Inr outc)"
  then obtain t where t: "is_connected s" "is_connected t = is_connected s"
    "in_with t = in_with s" "if ac then sc = fst (close tx t) else sc = t"
    using run_returns [of tx s cmd ac ep up ff sc outc] by auto
  with h show "is_connected sc" by (cases ac) (auto simp: close_in_with)
next
  assume h: "(in_with s \<or> \<not> ac) \<and> mrun tx s cmds ac ep up ff = (sd, Inr dctd)"
  then obtain t where t: "is_connected s" "is_connected t = is_connected s"
    "in_with t = in_with s" "if ac then sd = fst (close tx t) else sd = t"
    using mrun_returns [of tx s cmds ac ep up ff sd dctd] by auto
  with h show "is_connected sd" by (cases ac) (auto simp: close_in_with)
next
  show "\<not> is_connected (fst (exit tx s))"
    by (simp add: exit_def close_closes)
qed

theorem c9_session_state_witness:
  "\<not> is_connected (ok_session\<lparr>is_connected := False\<rparr>)
   \<and> snd (run demo_externals (ok_session\<lparr>is_connected := False\<rparr>) (Some ''ls'') True
            Zero Zero Zero) = Inl not_connected
   \<and> \<not> in_with ok_session
   \<and> snd (run demo_externals ok_session (Some ''ls'') True Zero Zero Zero) = Inr ''ok''
   \<and> \<not> is_connected (fst (run demo_externals ok_session (Some ''ls'') True Zero Zero Zero))
   \<and> snd (run demo_externals
            (fst (run demo_externals ok_session (Some ''ls'') True Zero Zero Zero))
            (Some ''ls'') True Zero Zero Zero) = Inl not_connected
   \<and> snd (mrun demo_externals ok_session [(''a'', Some ''ls'')] True Zero Zero Zero) =
       Inr [(''a'', ''ok'')]
   \<and> \<not> is_connected
        (fst (mrun demo_externals ok_session [(''a'', Some ''ls'')] True Zero Zero Zero))
   \<and> in_with (enter ok_session)
   \<and> snd (run demo_externals (enter ok_session) (Some ''ls'') True Zero Zero Zero) = Inr ''ok''
   \<and> is_connected
        (fst (run demo_externals (enter ok_session) (Some ''ls'') True Zero Zero Zero))
   \<and> snd (mrun demo_externals ok_session [(''a'', Some ''ls'')] False Zero Zero Zero) =
       Inr [(''a'', ''ok'')]
   \<and> is_connected
        (fst (mrun demo_externals ok_session [(''a'', Some ''ls'')] False Zero Zero Zero))"
  using
    c9_session_state [where tx = demo_externals and s = "ok_session\<lparr>is_connected := False\<rparr>"
      and cmd = "Some ''ls''" and ac = True and ep = Zero and up = Zero and ff = Zero]
    c9_session_state [where tx = demo_externals and s = ok_session
      and cmd = "Some ''ls''" and cmds = "[(''a'', Some ''ls'')]"
      and ep = Zero and up = Zero and ff = Zero
      and sa = "fst (run demo_externals ok_session (Some ''ls'') True Zero Zero Zero)"
      and out = "''ok''"
      and sb = "fst (mrun demo_externals ok_session [(''a'', Some ''ls'')] True Zero Zero Zero)"
      and dct = "[(''a'', ''ok'')]"
      and cmd' = "Some ''ls''" and ac' = True and ep' = Zero and up' = Zero and ff' = Zero
      and ac = False
      and sd = "fst (mrun demo_externals ok_session [(''a'', Some ''ls'')] False Zero Zero Zero)"
      and dctd = "[(''a'', ''ok'')]"]
    c9_session_state [where tx = demo_externals and s = "enter ok_session"
      and cmd = "Some ''ls''" and ac = True and ep = Zero and up = Zero and ff = Zero
      and sc = "fst (run demo_externals (enter ok_session) (Some ''ls'') True Zero Zero Zero)"
      and outc = "''ok''"]
  by (simp add: session_eval ok_session_def enter_def)

end
